theory Spec2Isabelle
  imports Complex_Main
begin

section \<open>JavaScript values\<close>

text \<open>
  The service is untyped at run time: a message body is whatever \<^verbatim>\<open>JSON.parse\<close>
  returns, and \<^verbatim>\<open>message: any\<close> lets every field flow unchecked.  A value
  is a JSON value or \<^verbatim>\<open>undefined\<close> (the result of reading a missing property).
  A number is the rational value of the double (\<^verbatim>\<open>JSON.parse\<close> yields no NaN);
  an object is the list of its entries, one per key.
\<close>

datatype jsvalue =
    JUndefined
  | JNull
  | JBool bool
  | JNum rat
  | JStr string
  | JArr "jsvalue list"
  | JObj "(string \<times> jsvalue) list"

text \<open>Truthiness, as \<^verbatim>\<open>!v\<close> and \<^verbatim>\<open>v || w\<close> test it.\<close>

fun truthy :: "jsvalue \<Rightarrow> bool" where
  "truthy JUndefined = False"
| "truthy JNull = False"
| "truthy (JBool b) = b"
| "truthy (JNum n) = (n \<noteq> 0)"
| "truthy (JStr s) = (s \<noteq> [])"
| "truthy (JArr xs) = True"
| "truthy (JObj kvs) = True"

definition js_or :: "jsvalue \<Rightarrow> jsvalue \<Rightarrow> jsvalue" where
  "js_or a b = (if truthy a then a else b)"

text \<open>
  \<^verbatim>\<open>v.k\<close> for the property names the service reads (user, operation, id,
  firstName, lastName, email, dob, status): none of them lives on a prototype, so only
  an object's own entries answer; every other non-nullish value gives \<^verbatim>\<open>undefined\<close>.
\<close>

fun js_get :: "jsvalue \<Rightarrow> string \<Rightarrow> jsvalue" where
  "js_get (JObj kvs) k = (case map_of kvs k of Some v \<Rightarrow> v | None \<Rightarrow> JUndefined)"
| "js_get v k = JUndefined"

datatype exception =
    Error string
  | TypeError string
  | SyntaxError string
  | BadRequestException string
  | ServiceException string

text \<open>Reading a property of \<^verbatim>\<open>null\<close> or \<^verbatim>\<open>undefined\<close> throws.\<close>

definition js_get_checked :: "jsvalue \<Rightarrow> string \<Rightarrow> exception + jsvalue" where
  "js_get_checked v k =
     (if v = JNull \<or> v = JUndefined
      then Inl (TypeError ''Cannot read properties of null or undefined'')
      else Inr (js_get v k))"

section \<open>DynamoDB and SQS requests\<close>

text \<open>
  An attribute value as it goes on the wire.  The source writes \<^verbatim>\<open>{ S: e }\<close> with
  \<^verbatim>\<open>e\<close> of type \<^verbatim>\<open>any\<close>, so \<open>S\<close> carries a JavaScript value; the service
  accepts it only when it is a string.
\<close>

datatype AttributeValue =
    S jsvalue
  | N string
  | BOOL bool
  | NULL
  | L "AttributeValue list"
  | M "(string \<times> AttributeValue) list"

type_synonym item = "string \<rightharpoonup> AttributeValue"

text \<open>
  The expressions are kept parsed.  \<^verbatim>\<open>SET p1 = v1, p2 = v2\<close> is the list of its
  actions (path, value placeholder); \<^verbatim>\<open>a = :x AND b = :y\<close> is the list of its
  equalities; \<^verbatim>\<open>attribute_exists(id)\<close> is \<open>attribute_exists ''id''\<close>.
\<close>

datatype update_expression = SET "(string \<times> string) list"

datatype condition_expression = attribute_exists string

datatype dynamo_command =
    PutItemCommand (TableName: string) (Item: item)
  | UpdateItemCommand (TableName: string) (Key: item)
      (UpdateExpression: update_expression)
      (ExpressionAttributeValues: "string \<rightharpoonup> AttributeValue")
      (ExpressionAttributeNames: "string \<rightharpoonup> string")
      (ConditionExpression: condition_expression)
  | QueryCommand (TableName: string) (IndexName: "string option")
      (KeyConditionExpression: "(string \<times> string) list")
      (ExpressionAttributeValues: "string \<rightharpoonup> AttributeValue")

datatype dynamo_output = DynamoOutput (Items: "item list option")

datatype message = Message (Body: "string option") (ReceiptHandle: "string option")

datatype sqs_command =
    ReceiveMessageCommand (QueueUrl: string) (MaxNumberOfMessages: nat) (WaitTimeSeconds: nat)
  | DeleteMessageCommand (QueueUrl: string) "string option"

datatype sqs_output = SqsOutput (Messages: "message list option")

section \<open>The world the service runs in\<close>

text \<open>
  What the service cannot decide is a parameter: the configuration, the libraries
  (\<^verbatim>\<open>JSON.parse\<close>, \<^verbatim>\<open>uuidv4\<close>, the clock, the marshalling of a value that is
  not a string), and the outcome of each request to the queue or to the store.  Calls
  are numbered, so the n-th call of a kind may answer differently from the one before.
\<close>

record env =
  tableName :: string
  queueUrl :: string
  JSON_parse :: "string \<Rightarrow> jsvalue option"
  uuidv4 :: "nat \<Rightarrow> string"
  toISOString :: "nat \<Rightarrow> string"
  convertToAttr_other :: "jsvalue \<Rightarrow> exception + AttributeValue"
  dynamo_fault :: "nat \<Rightarrow> exception option"
  sqs_response :: "nat \<Rightarrow> sqs_command \<Rightarrow> exception + sqs_output"

datatype log_entry =
    LOG string "jsvalue list"
  | WARN string "jsvalue list"
  | ERROR string exception

datatype schedule = Immediately | After nat

record state =
  table :: "item list"
  dynamo_sent :: "dynamo_command list"
  sqs_sent :: "sqs_command list"
  logs :: "log_entry list"
  uuid_calls :: nat
  date_calls :: nat
  pending :: "schedule list"

section \<open>Effects\<close>

definition logger_log :: "string \<Rightarrow> jsvalue list \<Rightarrow> state \<Rightarrow> state" where
  "logger_log msg args s = s\<lparr>logs := logs s @ [LOG msg args]\<rparr>"

definition logger_warn :: "string \<Rightarrow> jsvalue list \<Rightarrow> state \<Rightarrow> state" where
  "logger_warn msg args s = s\<lparr>logs := logs s @ [WARN msg args]\<rparr>"

definition logger_error :: "string \<Rightarrow> exception \<Rightarrow> state \<Rightarrow> state" where
  "logger_error msg e s = s\<lparr>logs := logs s @ [ERROR msg e]\<rparr>"

text \<open>\<^verbatim>\<open>uuidv4()\<close> and \<^verbatim>\<open>new Date().toISOString()\<close>: each call is a new reading.\<close>

definition call_uuidv4 :: "env \<Rightarrow> state \<Rightarrow> string \<times> state" where
  "call_uuidv4 env s = (uuidv4 env (uuid_calls s), s\<lparr>uuid_calls := uuid_calls s + 1\<rparr>)"

definition new_Date_toISOString :: "env \<Rightarrow> state \<Rightarrow> string \<times> state" where
  "new_Date_toISOString env s =
     (toISOString env (date_calls s), s\<lparr>date_calls := date_calls s + 1\<rparr>)"

text \<open>
  \<^verbatim>\<open>marshall(obj, {removeUndefinedValues})\<close> of the AWS SDK.  A string becomes
  \<^verbatim>\<open>{S: string}\<close>; an undefined value is dropped when the option is set and
  refused otherwise; every other value is converted by the library
  (\<open>convertToAttr_other\<close>, which may throw).
\<close>

definition convertToAttr :: "env \<Rightarrow> jsvalue \<Rightarrow> exception + AttributeValue" where
  "convertToAttr env v =
     (case v of
        JUndefined \<Rightarrow> Inl (Error ''Pass options.removeUndefinedValues=true to remove undefined values'')
      | JStr str \<Rightarrow> Inr (S (JStr str))
      | _ \<Rightarrow> convertToAttr_other env v)"

fun marshall :: "env \<Rightarrow> bool \<Rightarrow> (string \<times> jsvalue) list \<Rightarrow> exception + item" where
  "marshall env removeUndefinedValues [] = Inr Map.empty"
| "marshall env removeUndefinedValues ((k, v) # kvs) =
     (if v = JUndefined \<and> removeUndefinedValues then marshall env removeUndefinedValues kvs
      else case convertToAttr env v of
             Inl e \<Rightarrow> Inl e
           | Inr a \<Rightarrow>
               (case marshall env removeUndefinedValues kvs of
                  Inl e \<Rightarrow> Inl e
                | Inr m \<Rightarrow> Inr (m(k \<mapsto> a))))"

section \<open>The store\<close>

text \<open>
  Modelled from the spec: the key-value store itself (DynamoDB) is an external
  collaborator, not part of the sources.  The spec's contract (sections 3, 5 and 6):
  \<^verbatim>\<open>putRecord\<close> inserts or overwrites the record with the same primary key \<open>id\<close>;
  \<^verbatim>\<open>updateRecord\<close> with a condition is applied atomically, only if the condition
  holds of the stored record, and fails otherwise without creating or changing anything
  (an update that passes its condition and finds no record would create one from the key);
  a query returns the matching records in order.  The table is the list of its records.
\<close>

definition get_item :: "item list \<Rightarrow> AttributeValue \<Rightarrow> item option" where
  "get_item tbl k = find (\<lambda>it. it ''id'' = Some k) tbl"

fun put_item :: "item list \<Rightarrow> AttributeValue \<Rightarrow> item \<Rightarrow> item list" where
  "put_item [] k new = [new]"
| "put_item (it # tbl) k new =
     (if it ''id'' = Some k then new # tbl else it # put_item tbl k new)"

text \<open>A path is an attribute name, or a \<^verbatim>\<open>#placeholder\<close> of ExpressionAttributeNames.\<close>

definition resolve_name :: "(string \<rightharpoonup> string) \<Rightarrow> string \<Rightarrow> string option" where
  "resolve_name names p = (if p \<noteq> [] \<and> hd p = CHR ''#'' then names p else Some p)"

fun apply_set ::
  "(string \<rightharpoonup> string) \<Rightarrow> (string \<rightharpoonup> AttributeValue) \<Rightarrow> (string \<times> string) list \<Rightarrow> item \<Rightarrow> item option"
where
  "apply_set names vals [] it = Some it"
| "apply_set names vals ((p, v) # acts) it =
     (case (resolve_name names p, vals v) of
        (Some a, Some x) \<Rightarrow> apply_set names vals acts (it(a \<mapsto> x))
      | _ \<Rightarrow> None)"

definition wire_ok :: "AttributeValue \<Rightarrow> bool" where
  "wire_ok a = (case a of S (JStr str) \<Rightarrow> True | S other \<Rightarrow> False | _ \<Rightarrow> True)"

definition condition_holds :: "condition_expression \<Rightarrow> item option \<Rightarrow> bool" where
  "condition_holds c stored =
     (case c of attribute_exists a \<Rightarrow>
        (case stored of None \<Rightarrow> False | Some it \<Rightarrow> it a \<noteq> None))"

definition key_matches :: "(string \<rightharpoonup> AttributeValue) \<Rightarrow> (string \<times> string) list \<Rightarrow> item \<Rightarrow> bool" where
  "key_matches vals conds it = list_all (\<lambda>(a, v). vals v \<noteq> None \<and> it a = vals v) conds"

text \<open>
  Modelled from the spec: what the store does with one request (the service is not part
  of the sources).  A put needs the key attribute and replaces the record of that key.
  An update is refused when a value is not well-typed on the wire or a placeholder is
  not bound, fails its condition without any change when \<^verbatim>\<open>attribute_exists\<close> finds
  no record or no such attribute, and otherwise overwrites the attributes of its
  \<^verbatim>\<open>SET\<close> actions and keeps every other attribute.  A query returns the records
  that satisfy every equality, in table order.
\<close>

fun store_apply :: "dynamo_command \<Rightarrow> item list \<Rightarrow> exception + (dynamo_output \<times> item list)" where
  "store_apply (PutItemCommand tn new) tbl =
     (case new ''id'' of
        None \<Rightarrow> Inl (ServiceException ''ValidationException'')
      | Some k \<Rightarrow> Inr (DynamoOutput None, put_item tbl k new))"
| "store_apply (UpdateItemCommand tn key (SET acts) vals names cond) tbl =
     (case key ''id'' of
        None \<Rightarrow> Inl (ServiceException ''ValidationException'')
      | Some k \<Rightarrow>
          if \<not> list_all (\<lambda>(p, v). case vals v of None \<Rightarrow> False | Some x \<Rightarrow> wire_ok x) acts
          then Inl (ServiceException ''ValidationException'')
          else if \<not> condition_holds cond (get_item tbl k)
          then Inl (ServiceException ''ConditionalCheckFailedException'')
          else (case apply_set names vals acts
                       (case get_item tbl k of None \<Rightarrow> key | Some it \<Rightarrow> it) of
                  None \<Rightarrow> Inl (ServiceException ''ValidationException'')
                | Some it' \<Rightarrow> Inr (DynamoOutput None, put_item tbl k it')))"
| "store_apply (QueryCommand tn idx conds vals) tbl =
     (if \<not> list_all (\<lambda>(a, v). case vals v of None \<Rightarrow> False | Some x \<Rightarrow> wire_ok x) conds
      then Inl (ServiceException ''ValidationException'')
      else Inr (DynamoOutput (Some (filter (key_matches vals conds) tbl)), tbl))"

text \<open>
  \<^verbatim>\<open>this.dynamoDBClient.send(command)\<close>: the request is recorded; it fails when the
  world says so (network, throttling, or whatever else the service refuses), leaving
  the table as it was, and is applied to the table otherwise.
\<close>

definition dynamoDBClient_send ::
  "env \<Rightarrow> dynamo_command \<Rightarrow> state \<Rightarrow> (exception + dynamo_output) \<times> state" where
  "dynamoDBClient_send env command s =
     (let s1 = s\<lparr>dynamo_sent := dynamo_sent s @ [command]\<rparr> in
      case dynamo_fault env (length (dynamo_sent s)) of
        Some e \<Rightarrow> (Inl e, s1)
      | None \<Rightarrow>
          (case store_apply command (table s) of
             Inl e \<Rightarrow> (Inl e, s1)
           | Inr (out, tbl) \<Rightarrow> (Inr out, s1\<lparr>table := tbl\<rparr>)))"

text \<open>\<^verbatim>\<open>this.sqsClient.send(command)\<close>: the queue is the world's.\<close>

definition sqsClient_send ::
  "env \<Rightarrow> sqs_command \<Rightarrow> state \<Rightarrow> (exception + sqs_output) \<times> state" where
  "sqsClient_send env command s =
     (sqs_response env (length (sqs_sent s)) command, s\<lparr>sqs_sent := sqs_sent s @ [command]\<rparr>)"

section \<open>The Event Dispatcher\<close>

text \<open>
  \<^verbatim>\<open>handleUserEvent\<close>, lines 83 to 207.  A thrown exception is the first component
  of the result; the state holds what happened before it was thrown.
\<close>

text \<open>The \<^verbatim>\<open>create\<close> branch, lines 118 to 124: its store error is logged, not rethrown.\<close>

definition handleUserEvent_create ::
  "env \<Rightarrow> jsvalue \<Rightarrow> item \<Rightarrow> state \<Rightarrow> exception option \<times> state" where
  "handleUserEvent_create env body params_Item s =
     (case dynamoDBClient_send env (PutItemCommand (tableName env) params_Item) s of
        (Inr out, s1) \<Rightarrow>
          (None, logger_log ''User ${body.user.firstName} created successfully.''
                   [js_get (js_get body ''user'') ''firstName''] s1)
      | (Inl error, s1) \<Rightarrow>
          (None, logger_error ''Error creating user in DynamoDB'' error s1))"

text \<open>
  The request of the \<^verbatim>\<open>update\<close> branch, lines 130 to 156, for the clock reading
  \<open>now\<close> of line 136 and the marshalled key of line 149.
\<close>

definition update_params :: "env \<Rightarrow> jsvalue \<Rightarrow> string \<Rightarrow> item \<Rightarrow> dynamo_command" where
  "update_params env user now key =
     (let updateExpression =
            SET [(''#firstName'', '':firstName''), (''#lastName'', '':lastName''),
                 (''#dob'', '':dob''), (''#updatedAt'', '':updatedAt''),
                 (''#status'', '':status'')];
          expressionAttributeValues =
            [ '':firstName'' \<mapsto> S (js_or (js_get user ''firstName'') (JStr [])),
              '':lastName'' \<mapsto> S (js_or (js_get user ''lastName'') (JStr [])),
              '':dob'' \<mapsto> S (js_or (js_get user ''dob'') (JStr [])),
              '':updatedAt'' \<mapsto> S (JStr now),
              '':status'' \<mapsto> S (JStr ''updated'') ];
          expressionAttributeNames =
            [ ''#firstName'' \<mapsto> ''firstName'', ''#lastName'' \<mapsto> ''lastName'',
              ''#dob'' \<mapsto> ''dob'', ''#updatedAt'' \<mapsto> ''updatedAt'',
              ''#status'' \<mapsto> ''status'' ]
      in UpdateItemCommand (tableName env) key updateExpression
           expressionAttributeValues expressionAttributeNames (attribute_exists ''id''))"

text \<open>The \<^verbatim>\<open>update\<close> branch, lines 126 to 165.\<close>

definition handleUserEvent_update ::
  "env \<Rightarrow> jsvalue \<Rightarrow> state \<Rightarrow> exception option \<times> state" where
  "handleUserEvent_update env user s =
     (if \<not> truthy (js_get user ''id'')
      then (Some (Error ''Correct ID required for update operation''), s)
      else
        let (now, s1) = new_Date_toISOString env s
        in case marshall env False [(''id'', js_get user ''id'')] of
             Inl e \<Rightarrow> (Some e, s1)
           | Inr key \<Rightarrow>
               (case dynamoDBClient_send env (update_params env user now key) s1 of
                  (Inr out, s2) \<Rightarrow>
                    (None, logger_log ''User ${user.id} updated successfully.''
                             [js_get user ''id''] s2)
                | (Inl error, s2) \<Rightarrow>
                    (Some (BadRequestException ''Failed to update user''),
                     logger_error ''Error updating user in DynamoDB'' error s2)))"

text \<open>The request of the \<^verbatim>\<open>updateStatus\<close> branch, lines 173 to 191.\<close>

definition updateStatus_params :: "env \<Rightarrow> jsvalue \<Rightarrow> string \<Rightarrow> item \<Rightarrow> dynamo_command" where
  "updateStatus_params env user now key =
     (let updateExpression =
            SET [(''#status'', '':status''), (''updatedAt'', '':updatedAt'')];
          expressionAttributeValues =
            [ '':status'' \<mapsto> S (js_or (js_get user ''status'') (JStr [])),
              '':updatedAt'' \<mapsto> S (JStr now) ]
      in UpdateItemCommand (tableName env) key updateExpression
           expressionAttributeValues [ ''#status'' \<mapsto> ''status'' ] (attribute_exists ''id''))"

text \<open>The \<^verbatim>\<open>updateStatus\<close> branch, lines 167 to 200.\<close>

definition handleUserEvent_updateStatus ::
  "env \<Rightarrow> jsvalue \<Rightarrow> state \<Rightarrow> exception option \<times> state" where
  "handleUserEvent_updateStatus env user s =
     (if \<not> truthy (js_get user ''id'')
      then (Some (BadRequestException ''ID required for status update operation''), s)
      else
        let (now, s1) = new_Date_toISOString env s
        in case marshall env False [(''id'', js_get user ''id'')] of
             Inl e \<Rightarrow> (Some e, s1)
           | Inr key \<Rightarrow>
               (case dynamoDBClient_send env (updateStatus_params env user now key) s1 of
                  (Inr out, s2) \<Rightarrow>
                    (None, logger_log ''User ${user.id} status updated successfully.''
                             [js_get user ''id''] s2)
                | (Inl error, s2) \<Rightarrow>
                    (Some (BadRequestException ''Failed to update user''),
                     logger_error ''Error updating user in DynamoDB'' error s2)))"

text \<open>
  The object handed to \<^verbatim>\<open>marshall\<close> at lines 100 to 114, built for every operation
  before the branch: one identifier and two readings of the clock, in this order.
\<close>

definition create_params :: "env \<Rightarrow> jsvalue \<Rightarrow> state \<Rightarrow> (exception + item) \<times> state" where
  "create_params env user s =
     (let (uuid, s1) = call_uuidv4 env s;
          (createdAt, s2) = new_Date_toISOString env s1;
          (updatedAt, s3) = new_Date_toISOString env s2
      in (marshall env True
            [(''id'', JStr uuid),
             (''firstName'', js_get user ''firstName''),
             (''lastName'', js_get user ''lastName''),
             (''email'', js_get user ''email''),
             (''dob'', js_get user ''dob''),
             (''status'', js_or (js_get user ''status'') (JStr ''active'')),
             (''createdAt'', JStr createdAt),
             (''updatedAt'', JStr updatedAt)], s3))"

text \<open>
  Lines 85 to 96: the body must be a non-empty text that parses, and both
  \<^verbatim>\<open>body.user\<close> and \<^verbatim>\<open>body.operation\<close> must be truthy.  The result is
  the body, the user and the operation.
\<close>

definition parse_event :: "env \<Rightarrow> message \<Rightarrow> exception + jsvalue \<times> jsvalue \<times> jsvalue" where
  "parse_event env message =
     (case Body message of
        None \<Rightarrow> Inl (Error ''Message body is missing'')
      | Some text \<Rightarrow>
          if text = [] then Inl (Error ''Message body is missing'')
          else (case JSON_parse env text of
             None \<Rightarrow> Inl (SyntaxError ''Unexpected token in JSON'')
           | Some body \<Rightarrow>
               (case js_get_checked body ''user'' of
                  Inl e \<Rightarrow> Inl e
                | Inr user \<Rightarrow>
                    if \<not> truthy user \<or> \<not> truthy (js_get body ''operation'')
                    then Inl (Error ''Invalid message structure'')
                    else Inr (body, user, js_get body ''operation''))))"

text \<open>The body of the outer \<^verbatim>\<open>try\<close>, lines 85 to 203.\<close>

definition handleUserEvent_try :: "env \<Rightarrow> message \<Rightarrow> state \<Rightarrow> exception option \<times> state" where
  "handleUserEvent_try env message s =
     (case parse_event env message of
        Inl e \<Rightarrow> (Some e, s)
      | Inr (body, user, operation) \<Rightarrow>
          (case create_params env user s of
             (Inl e, s1) \<Rightarrow> (Some e, s1)
           | (Inr params_Item, s1) \<Rightarrow>
               if operation = JStr ''create''
               then handleUserEvent_create env body params_Item s1
               else if operation = JStr ''update''
               then handleUserEvent_update env user s1
               else if operation = JStr ''updateStatus''
               then handleUserEvent_updateStatus env user s1
               else (None, logger_warn ''Unknown operation: ${operation}'' [operation] s1)))"

text \<open>
  The outer \<^verbatim>\<open>catch\<close>, lines 204 to 206: whatever was thrown is logged, and
  nothing is thrown again.
\<close>

definition handleUserEvent :: "env \<Rightarrow> message \<Rightarrow> state \<Rightarrow> exception option \<times> state" where
  "handleUserEvent env message s =
     (case handleUserEvent_try env message s of
        (None, s1) \<Rightarrow> (None, s1)
      | (Some error, s1) \<Rightarrow> (None, logger_error ''Error handling SQS message:'' error s1))"

section \<open>The Consume Loop\<close>

text \<open>
  Line 30, in milliseconds (the comment beside it says 30 seconds; the value is what
  \<^verbatim>\<open>setTimeout\<close> gets).
\<close>

definition pollingInterval :: nat where
  "pollingInterval = 10000"

text \<open>
  The body of the \<^verbatim>\<open>for\<close> loop, lines 58 to 67: log the body, dispatch, delete.
  An exception of either call would leave the loop.
\<close>

definition process_message :: "env \<Rightarrow> message \<Rightarrow> state \<Rightarrow> exception option \<times> state" where
  "process_message env message s =
     (let s1 = logger_log ''${message.Body}''
                 [case Body message of None \<Rightarrow> JUndefined | Some text \<Rightarrow> JStr text] s
      in case handleUserEvent env message s1 of
           (Some e, s2) \<Rightarrow> (Some e, s2)
         | (None, s2) \<Rightarrow>
             (case sqsClient_send env
                     (DeleteMessageCommand (queueUrl env) (ReceiptHandle message)) s2 of
                (Inl e, s3) \<Rightarrow> (Some e, s3)
              | (Inr out, s3) \<Rightarrow> (None, s3)))"

fun process_messages :: "env \<Rightarrow> message list \<Rightarrow> state \<Rightarrow> exception option \<times> state" where
  "process_messages env [] s = (None, s)"
| "process_messages env (message # rest) s =
     (case process_message env message s of
        (Some e, s1) \<Rightarrow> (Some e, s1)
      | (None, s1) \<Rightarrow> process_messages env rest s1)"

text \<open>
  The next invocation of \<^verbatim>\<open>pollQueue\<close> is an entry of \<open>pending\<close>: \<open>Immediately\<close>
  for the direct call of line 71, \<open>After d\<close> for \<^verbatim>\<open>setTimeout(..., d)\<close>, with
  \<open>d\<close> in milliseconds.
\<close>

definition call_pollQueue :: "state \<Rightarrow> state" where
  "call_pollQueue s = s\<lparr>pending := pending s @ [Immediately]\<rparr>"

definition setTimeout_pollQueue :: "nat \<Rightarrow> state \<Rightarrow> state" where
  "setTimeout_pollQueue delay s = s\<lparr>pending := pending s @ [After delay]\<rparr>"

text \<open>One invocation of \<^verbatim>\<open>pollQueue\<close>, lines 46 to 82.\<close>

definition pollQueue :: "env \<Rightarrow> state \<Rightarrow> state" where
  "pollQueue env s =
     (case sqsClient_send env (ReceiveMessageCommand (queueUrl env) 10 20) s of
        (Inl error, s1) \<Rightarrow>
          setTimeout_pollQueue pollingInterval
            (logger_error ''Error polling SQS queue:'' error s1)
      | (Inr response, s1) \<Rightarrow>
          (case Messages response of
             Some (message # rest) \<Rightarrow>
               (case process_messages env (message # rest) s1 of
                  (None, s2) \<Rightarrow> call_pollQueue s2
                | (Some error, s2) \<Rightarrow>
                    setTimeout_pollQueue pollingInterval
                      (logger_error ''Error polling SQS queue:'' error s2))
           | _ \<Rightarrow>
               setTimeout_pollQueue pollingInterval
                 (logger_log ''Queue is empty, waiting before next poll...'' [] s1)))"

text \<open>\<^verbatim>\<open>onModuleInit\<close>, lines 42 to 44, starts the loop.\<close>

definition onModuleInit :: "state \<Rightarrow> state" where
  "onModuleInit s = call_pollQueue s"

text \<open>
  The runtime runs the pending invocations one after the other; \<open>run env n\<close> runs at
  most \<open>n\<close> of them and stops early only when none is pending.  \<open>polls\<close> counts the
  receive calls made so far.
\<close>

fun run :: "env \<Rightarrow> nat \<Rightarrow> state \<Rightarrow> state" where
  "run env 0 s = s"
| "run env (Suc n) s =
     (case pending s of
        [] \<Rightarrow> s
      | p # ps \<Rightarrow> run env n (pollQueue env (s\<lparr>pending := ps\<rparr>)))"

definition is_receive :: "sqs_command \<Rightarrow> bool" where
  "is_receive c = (case c of ReceiveMessageCommand q m w \<Rightarrow> True | _ \<Rightarrow> False)"

definition polls :: "state \<Rightarrow> nat" where
  "polls s = length (filter is_receive (sqs_sent s))"

text \<open>
  The deletes of a batch all succeed: the delete of its i-th message is the request
  number \<open>n + i\<close> to the queue, when the batch is processed from request \<open>n\<close> on.
\<close>

fun deletes_succeed :: "env \<Rightarrow> nat \<Rightarrow> message list \<Rightarrow> bool" where
  "deletes_succeed env n [] = True"
| "deletes_succeed env n (message # rest) =
     (case sqs_response env n (DeleteMessageCommand (queueUrl env) (ReceiptHandle message)) of
        Inl e \<Rightarrow> False
      | Inr out \<Rightarrow> deletes_succeed env (Suc n) rest)"

text \<open>
  The messages of a batch that the loop reaches, when the batch is processed from
  request \<open>n\<close> on: the first one, and each next one as long as the delete before
  it succeeded.
\<close>

fun handled :: "env \<Rightarrow> nat \<Rightarrow> message list \<Rightarrow> message list" where
  "handled env n [] = []"
| "handled env n (message # rest) =
     message #
     (case sqs_response env n (DeleteMessageCommand (queueUrl env) (ReceiptHandle message)) of
        Inl e \<Rightarrow> []
      | Inr out \<Rightarrow> handled env (Suc n) rest)"

section \<open>The Query Service\<close>

text \<open>\<^verbatim>\<open>a.S\<close> of an attribute value.\<close>

definition attr_S :: "AttributeValue \<Rightarrow> jsvalue" where
  "attr_S a = (case a of S v \<Rightarrow> v | _ \<Rightarrow> JUndefined)"

text \<open>The \<^verbatim>\<open>try\<close> block of \<^verbatim>\<open>getUserStatus\<close>, lines 216 to 235.\<close>

definition getUserStatus_try ::
  "env \<Rightarrow> jsvalue \<Rightarrow> jsvalue \<Rightarrow> state \<Rightarrow> (exception + jsvalue \<times> jsvalue) \<times> state" where
  "getUserStatus_try env email dob s =
     (case dynamoDBClient_send env
             (QueryCommand (tableName env) (Some ''email-dob-index'')
                [(''email'', '':email''), (''dob'', '':dob'')]
                [ '':email'' \<mapsto> S email, '':dob'' \<mapsto> S dob ]) s of
        (Inl e, s1) \<Rightarrow> (Inl e, s1)
      | (Inr response, s1) \<Rightarrow>
          (case Items response of
             Some (user # rest) \<Rightarrow>
               (case user ''id'' of
                  None \<Rightarrow> (Inl (TypeError ''Cannot read properties of undefined''), s1)
                | Some user_id \<Rightarrow>
                    (case user ''status'' of
                       None \<Rightarrow> (Inl (TypeError ''Cannot read properties of undefined''), s1)
                     | Some user_status \<Rightarrow> (Inr (attr_S user_id, attr_S user_status), s1)))
           | _ \<Rightarrow> (Inl (BadRequestException ''User not found''), s1)))"

text \<open>
  \<^verbatim>\<open>getUserStatus\<close>, lines 208 to 240: the \<^verbatim>\<open>catch\<close> of lines 236 to 239
  takes every exception of the block, the one of line 234 included.
\<close>

definition getUserStatus ::
  "env \<Rightarrow> jsvalue \<Rightarrow> jsvalue \<Rightarrow> state \<Rightarrow> (exception + jsvalue \<times> jsvalue) \<times> state" where
  "getUserStatus env email dob s =
     (if \<not> truthy email \<or> \<not> truthy dob
      then (Inl (BadRequestException ''Both email and date of birth must be provided.''), s)
      else case getUserStatus_try env email dob s of
             (Inr r, s1) \<Rightarrow> (Inr r, s1)
           | (Inl error, s1) \<Rightarrow>
               (Inl (BadRequestException ''Failed to check user status''),
                logger_error ''Error checking user status:'' error s1))"

text \<open>The \<^verbatim>\<open>try\<close> block of \<^verbatim>\<open>getEntireUserDetails\<close>, lines 249 to 265.\<close>

definition getEntireUserDetails_try ::
  "env \<Rightarrow> jsvalue \<Rightarrow> state \<Rightarrow> (exception + item) \<times> state" where
  "getEntireUserDetails_try env ident s =
     (case dynamoDBClient_send env
             (QueryCommand (tableName env) None [(''id'', '':id'')] [ '':id'' \<mapsto> S ident ]) s of
        (Inl e, s1) \<Rightarrow> (Inl e, s1)
      | (Inr response, s1) \<Rightarrow>
          (case Items response of
             Some (user # rest) \<Rightarrow> (Inr user, s1)
           | _ \<Rightarrow> (Inl (BadRequestException ''User not found''), s1)))"

text \<open>
  \<^verbatim>\<open>getEntireUserDetails\<close>, lines 241 to 270 (the \<^verbatim>\<open>console.log\<close> of
  line 261 writes to the console, not to the logger, and is left out).
\<close>

definition getEntireUserDetails ::
  "env \<Rightarrow> jsvalue \<Rightarrow> state \<Rightarrow> (exception + item) \<times> state" where
  "getEntireUserDetails env ident s =
     (if \<not> truthy ident
      then (Inl (BadRequestException ''Both email and date of birth must be provided.''), s)
      else case getEntireUserDetails_try env ident s of
             (Inr r, s1) \<Rightarrow> (Inr r, s1)
           | (Inl error, s1) \<Rightarrow>
               (Inl (BadRequestException ''Failed to check user status''),
                logger_error ''Error checking user status:'' error s1))"

section \<open>Concrete worlds\<close>

text \<open>
  The inputs at which the properties below are evaluated.  A message text names the
  document that the world's parser returns for it; the documents follow the examples
  of the spec and the messages of the repository's tests.
\<close>

definition john_create :: jsvalue where
  "john_create =
     JObj [(''user'', JObj [(''firstName'', JStr ''John''), (''lastName'', JStr ''Doe''),
                            (''email'', JStr ''john@x.com''), (''dob'', JStr ''2000-01-01'')]),
           (''operation'', JStr ''create'')]"

definition blank_status_create :: jsvalue where
  "blank_status_create =
     JObj [(''user'', JObj [(''id'', JStr ''abc''), (''email'', JStr ''john@x.com''),
                            (''status'', JStr [])]),
           (''operation'', JStr ''create'')]"

definition jane_update :: jsvalue where
  "jane_update =
     JObj [(''user'', JObj [(''id'', JStr ''abc''), (''firstName'', JStr ''Jane'')]),
           (''operation'', JStr ''update'')]"

definition missing_update :: jsvalue where
  "missing_update =
     JObj [(''user'', JObj [(''id'', JStr ''missing-id'')]), (''operation'', JStr ''update'')]"

definition abc_updateStatus :: jsvalue where
  "abc_updateStatus =
     JObj [(''user'', JObj [(''id'', JStr ''abc'')]), (''operation'', JStr ''updateStatus'')]"

definition noid_update :: jsvalue where
  "noid_update =
     JObj [(''user'', JObj [(''firstName'', JStr ''Jane'')]), (''operation'', JStr ''update'')]"

definition parse_fixture :: "string \<Rightarrow> jsvalue option" where
  "parse_fixture =
     map_of [(''john-create'', john_create),
             (''blank-status-create'', blank_status_create),
             (''jane-update'', jane_update),
             (''missing-update'', missing_update),
             (''abc-updateStatus'', abc_updateStatus),
             (''noid-update'', noid_update),
             (''{}'', JObj [])]"

definition fixture_queue :: "nat \<Rightarrow> sqs_command \<Rightarrow> exception + sqs_output" where
  "fixture_queue n c =
     (case c of
        ReceiveMessageCommand q m w \<Rightarrow>
          if n = 0 then Inr (SqsOutput (Some [Message (Some ''{}'') (Some ''handle-1'')]))
          else Inr (SqsOutput (Some []))
      | DeleteMessageCommand q h \<Rightarrow> Inr (SqsOutput None))"

definition quiet_world :: env where
  "quiet_world =
     \<lparr>tableName = ''users'', queueUrl = ''test-queue'',
      JSON_parse = parse_fixture,
      uuidv4 = (\<lambda>n. if n = 0 then ''uuid-0'' else ''uuid-1''),
      toISOString = (\<lambda>n. if n = 0 then ''2024-01-01T00:00:00.000Z''
                            else if n = 1 then ''2024-01-01T00:00:00.001Z''
                            else ''2024-01-01T00:00:00.002Z''),
      convertToAttr_other = (\<lambda>v. Inl (Error ''Unsupported type passed'')),
      dynamo_fault = (\<lambda>n. None),
      sqs_response = fixture_queue\<rparr>"

definition down_world :: env where
  "down_world = quiet_world\<lparr>dynamo_fault := (\<lambda>n. Some (ServiceException ''ServiceUnavailable''))\<rparr>"

definition failing_delete_world :: env where
  "failing_delete_world =
     quiet_world\<lparr>sqs_response := (\<lambda>n c.
        case c of
          ReceiveMessageCommand q m w \<Rightarrow> fixture_queue n c
        | DeleteMessageCommand q h \<Rightarrow> Inl (ServiceException ''ReceiptHandleIsInvalid''))\<rparr>"

definition unreachable_queue_world :: env where
  "unreachable_queue_world =
     quiet_world\<lparr>sqs_response := (\<lambda>n c. Inl (ServiceException ''NetworkingError''))\<rparr>"

definition batch_of_two :: "message list" where
  "batch_of_two =
     [Message (Some ''{}'') (Some ''handle-1''), Message (Some ''john-create'') (Some ''handle-2'')]"

definition failing_delete_pair_world :: env where
  "failing_delete_pair_world =
     quiet_world\<lparr>sqs_response := (\<lambda>n c.
        case c of
          ReceiveMessageCommand q m w \<Rightarrow> Inr (SqsOutput (Some batch_of_two))
        | DeleteMessageCommand q h \<Rightarrow> Inl (ServiceException ''ReceiptHandleIsInvalid''))\<rparr>"

definition pair_world :: env where
  "pair_world =
     quiet_world\<lparr>sqs_response := (\<lambda>n c.
        case c of
          ReceiveMessageCommand q m w \<Rightarrow> Inr (SqsOutput (Some batch_of_two))
        | DeleteMessageCommand q h \<Rightarrow> Inr (SqsOutput None))\<rparr>"

definition abc_record :: item where
  "abc_record =
     [ ''id'' \<mapsto> S (JStr ''abc''), ''firstName'' \<mapsto> S (JStr ''Joan''),
       ''lastName'' \<mapsto> S (JStr ''Roe''), ''email'' \<mapsto> S (JStr ''joan@x.com''),
       ''dob'' \<mapsto> S (JStr ''1990-01-01''), ''status'' \<mapsto> S (JStr ''active''),
       ''createdAt'' \<mapsto> S (JStr ''2023-06-01T00:00:00.000Z''),
       ''updatedAt'' \<mapsto> S (JStr ''2023-06-01T00:00:00.000Z'') ]"

definition empty_state :: state where
  "empty_state =
     \<lparr>table = [], dynamo_sent = [], sqs_sent = [], logs = [],
      uuid_calls = 0, date_calls = 0, pending = []\<rparr>"

definition abc_state :: state where
  "abc_state = empty_state\<lparr>table := [abc_record]\<rparr>"

section \<open>Properties of the Query Service\<close>

text \<open>
  C1.  The spec has a lookup that succeeds with zero matching records fail with a
  not-found error that the caller can tell apart from the error used for a failed
  lookup.  The code does not do that.  The exception \<^verbatim>\<open>User not found\<close> of
  lines 234 and 264 is thrown inside the \<^verbatim>\<open>try\<close> block, so the \<^verbatim>\<open>catch\<close>
  of the same function takes it and throws \<^verbatim>\<open>Failed to check user status\<close> in its
  place: the caller never sees \<^verbatim>\<open>User not found\<close>, and gets for an empty result
  the very error it gets when the store is down.
\<close>

theorem not_found_surfaces_as_lookup_failure:
  "fst (getUserStatus env email dob s) \<noteq> Inl (BadRequestException ''User not found'')
   \<and> fst (getEntireUserDetails env ident s) \<noteq> Inl (BadRequestException ''User not found'')
   \<and> fst (dynamoDBClient_send quiet_world
            (QueryCommand ''users'' (Some ''email-dob-index'')
               [(''email'', '':email''), (''dob'', '':dob'')]
               [ '':email'' \<mapsto> S (JStr ''a@b.com''), '':dob'' \<mapsto> S (JStr ''1990-01-01'') ])
            empty_state) = Inr (DynamoOutput (Some []))
   \<and> fst (getUserStatus_try quiet_world (JStr ''a@b.com'') (JStr ''1990-01-01'') empty_state)
       = Inl (BadRequestException ''User not found'')
   \<and> fst (getUserStatus quiet_world (JStr ''a@b.com'') (JStr ''1990-01-01'') empty_state)
       = Inl (BadRequestException ''Failed to check user status'')
   \<and> fst (getUserStatus down_world (JStr ''a@b.com'') (JStr ''1990-01-01'') empty_state)
       = Inl (BadRequestException ''Failed to check user status'')
   \<and> fst (getEntireUserDetails quiet_world (JStr ''missing-id'') empty_state)
       = Inl (BadRequestException ''Failed to check user status'')
   \<and> fst (getEntireUserDetails down_world (JStr ''missing-id'') empty_state)
       = Inl (BadRequestException ''Failed to check user status'')"
proof -
  have a: "fst (getUserStatus env email dob s) \<noteq> Inl (BadRequestException ''User not found'')"
    by (simp add: getUserStatus_def split: prod.splits sum.splits)
  have b: "fst (getEntireUserDetails env ident s) \<noteq> Inl (BadRequestException ''User not found'')"
    by (simp add: getEntireUserDetails_def split: prod.splits sum.splits)
  have c: "fst (dynamoDBClient_send quiet_world
            (QueryCommand ''users'' (Some ''email-dob-index'')
               [(''email'', '':email''), (''dob'', '':dob'')]
               [ '':email'' \<mapsto> S (JStr ''a@b.com''), '':dob'' \<mapsto> S (JStr ''1990-01-01'') ])
            empty_state) = Inr (DynamoOutput (Some []))"
    by (simp add: dynamoDBClient_send_def quiet_world_def empty_state_def wire_ok_def)
  have d: "fst (getUserStatus_try quiet_world (JStr ''a@b.com'') (JStr ''1990-01-01'') empty_state)
       = Inl (BadRequestException ''User not found'')"
    by (simp add: getUserStatus_try_def dynamoDBClient_send_def quiet_world_def
        empty_state_def wire_ok_def)
  have e: "fst (getUserStatus quiet_world (JStr ''a@b.com'') (JStr ''1990-01-01'') empty_state)
       = Inl (BadRequestException ''Failed to check user status'')"
    by (simp add: getUserStatus_def getUserStatus_try_def dynamoDBClient_send_def
        quiet_world_def empty_state_def wire_ok_def)
  have f: "fst (getUserStatus down_world (JStr ''a@b.com'') (JStr ''1990-01-01'') empty_state)
       = Inl (BadRequestException ''Failed to check user status'')"
    by (simp add: getUserStatus_def getUserStatus_try_def dynamoDBClient_send_def
        down_world_def quiet_world_def empty_state_def)
  have g: "fst (getEntireUserDetails quiet_world (JStr ''missing-id'') empty_state)
       = Inl (BadRequestException ''Failed to check user status'')"
    by (simp add: getEntireUserDetails_def getEntireUserDetails_try_def dynamoDBClient_send_def
        quiet_world_def empty_state_def wire_ok_def)
  have h: "fst (getEntireUserDetails down_world (JStr ''missing-id'') empty_state)
       = Inl (BadRequestException ''Failed to check user status'')"
    by (simp add: getEntireUserDetails_def getEntireUserDetails_try_def dynamoDBClient_send_def
        down_world_def quiet_world_def empty_state_def)
  show ?thesis using a b c d e f g h by blast
qed

theorem not_found_surfaces_as_lookup_failure_witness:
  "fst (getUserStatus quiet_world (JStr ''a@b.com'') (JStr ''1990-01-01'') empty_state)
     \<noteq> Inl (BadRequestException ''User not found'')
   \<and> fst (getUserStatus quiet_world (JStr ''a@b.com'') (JStr ''1990-01-01'') empty_state)
     = fst (getUserStatus down_world (JStr ''a@b.com'') (JStr ''1990-01-01'') empty_state)
   \<and> fst (getEntireUserDetails quiet_world (JStr ''missing-id'') empty_state)
     = fst (getEntireUserDetails down_world (JStr ''missing-id'') empty_state)"
  using not_found_surfaces_as_lookup_failure
          [of quiet_world "JStr ''a@b.com''" "JStr ''1990-01-01''" empty_state "JStr ''missing-id''"]
  by simp

section \<open>Facts about the store and the dispatcher\<close>

lemma get_item_Some_id: "get_item tbl k = Some it \<Longrightarrow> it ''id'' = Some k"
  by (auto simp: get_item_def find_Some_iff)

lemma get_item_put_item_same: "new ''id'' = Some k \<Longrightarrow> get_item (put_item tbl k new) k = Some new"
  by (induction tbl) (auto simp: get_item_def)

lemma get_item_put_item_other:
  "new ''id'' = Some k \<Longrightarrow> k' \<noteq> k \<Longrightarrow> get_item (put_item tbl k new) k' = get_item tbl k'"
  by (induction tbl) (auto simp: get_item_def)

lemma create_params_eq:
  "create_params env user s =
     (marshall env True
            [(''id'', JStr (uuidv4 env (uuid_calls s))),
             (''firstName'', js_get user ''firstName''),
             (''lastName'', js_get user ''lastName''),
             (''email'', js_get user ''email''),
             (''dob'', js_get user ''dob''),
             (''status'', js_or (js_get user ''status'') (JStr ''active'')),
             (''createdAt'', JStr (toISOString env (date_calls s))),
             (''updatedAt'', JStr (toISOString env (date_calls s + 1)))],
      s\<lparr>uuid_calls := uuid_calls s + 1, date_calls := date_calls s + 2\<rparr>)"
  by (simp add: create_params_def call_uuidv4_def new_Date_toISOString_def del: marshall.simps)

lemma create_params_frame:
  "table (snd (create_params env user s)) = table s"
  "dynamo_sent (snd (create_params env user s)) = dynamo_sent s"
  "sqs_sent (snd (create_params env user s)) = sqs_sent s"
  "logs (snd (create_params env user s)) = logs s"
  "pending (snd (create_params env user s)) = pending s"
  "date_calls (snd (create_params env user s)) = date_calls s + 2"
  "uuid_calls (snd (create_params env user s)) = uuid_calls s + 1"
  by (simp_all add: create_params_eq del: marshall.simps)

lemma marshall_id:
  "marshall env False [(''id'', v)] =
     (case convertToAttr env v of Inl e \<Rightarrow> Inl e | Inr a \<Rightarrow> Inr [''id'' \<mapsto> a])"
  by (simp split: sum.splits)

lemma handleUserEvent_never_throws: "fst (handleUserEvent env m s) = None"
  by (simp add: handleUserEvent_def split: prod.splits option.splits)

lemma handleUserEvent_parsed:
  "parse_event env m = Inr (body, user, operation) \<Longrightarrow>
   handleUserEvent_try env m s =
     (case fst (create_params env user s) of
        Inl e \<Rightarrow> (Some e, snd (create_params env user s))
      | Inr params_Item \<Rightarrow>
          if operation = JStr ''create''
          then handleUserEvent_create env body params_Item (snd (create_params env user s))
          else if operation = JStr ''update''
          then handleUserEvent_update env user (snd (create_params env user s))
          else if operation = JStr ''updateStatus''
          then handleUserEvent_updateStatus env user (snd (create_params env user s))
          else (None, logger_warn ''Unknown operation: ${operation}'' [operation]
                        (snd (create_params env user s))))"
  by (simp add: handleUserEvent_try_def split: prod.splits sum.splits)

lemma update_missing:
  assumes "convertToAttr env (js_get user ''id'') = Inr k" "get_item (table s) k = None"
  shows "\<exists>e s'. handleUserEvent_update env user s = (Some e, s') \<and> table s' = table s"
  using assms
  by (simp add: handleUserEvent_update_def update_params_def new_Date_toISOString_def marshall_id
      dynamoDBClient_send_def Let_def logger_log_def logger_error_def condition_holds_def
      split: sum.splits option.splits prod.splits)

lemma updateStatus_missing:
  assumes "convertToAttr env (js_get user ''id'') = Inr k" "get_item (table s) k = None"
  shows "\<exists>e s'. handleUserEvent_updateStatus env user s = (Some e, s') \<and> table s' = table s"
  using assms
  by (simp add: handleUserEvent_updateStatus_def updateStatus_params_def new_Date_toISOString_def marshall_id
      dynamoDBClient_send_def Let_def logger_log_def logger_error_def condition_holds_def
      split: sum.splits option.splits prod.splits)

lemma update_missing_sent:
  assumes "convertToAttr env (js_get user ''id'') = Inr k" "get_item (table s) k = None"
      "truthy (js_get user ''id'')"
  shows "fst (handleUserEvent_update env user s) = Some (BadRequestException ''Failed to update user'')"
    and "\<exists>e. logs (snd (handleUserEvent_update env user s)) = logs s @ [ERROR ''Error updating user in DynamoDB'' e]"
    and "\<exists>c. dynamo_sent (snd (handleUserEvent_update env user s)) = dynamo_sent s @ [c]
            \<and> ConditionExpression c = attribute_exists ''id''"
  using assms
  by (simp_all add: handleUserEvent_update_def update_params_def new_Date_toISOString_def marshall_id
      dynamoDBClient_send_def Let_def logger_log_def logger_error_def condition_holds_def
      split: sum.splits option.splits prod.splits)

lemma updateStatus_missing_sent:
  assumes "convertToAttr env (js_get user ''id'') = Inr k" "get_item (table s) k = None"
      "truthy (js_get user ''id'')"
  shows "fst (handleUserEvent_updateStatus env user s) = Some (BadRequestException ''Failed to update user'')"
    and "\<exists>e. logs (snd (handleUserEvent_updateStatus env user s)) = logs s @ [ERROR ''Error updating user in DynamoDB'' e]"
    and "\<exists>c. dynamo_sent (snd (handleUserEvent_updateStatus env user s)) = dynamo_sent s @ [c]
            \<and> ConditionExpression c = attribute_exists ''id''"
  using assms
  by (simp_all add: handleUserEvent_updateStatus_def updateStatus_params_def new_Date_toISOString_def marshall_id
      dynamoDBClient_send_def Let_def logger_log_def logger_error_def condition_holds_def
      split: sum.splits option.splits prod.splits)


section \<open>An update needs a stored record\<close>

text \<open>
  C3.  An \<^verbatim>\<open>update\<close> or \<^verbatim>\<open>updateStatus\<close> event whose \<^verbatim>\<open>user.id\<close> names no
  stored record leaves the table as it was: no record is created and none is modified.
  The event ends in the outer \<^verbatim>\<open>catch\<close>; and when the request reaches the store
  (the id is truthy and the marshalling of lines 100 to 114 did not throw), it carries
  the guard \<^verbatim>\<open>attribute_exists(id)\<close> and its rejection is logged.
\<close>

theorem update_of_missing_record_rejected:
  assumes parsed: "parse_event env m = Inr (body, user, operation)"
    and op: "operation = JStr ''update'' \<or> operation = JStr ''updateStatus''"
    and key: "convertToAttr env (js_get user ''id'') = Inr k"
    and missing: "get_item (table s) k = None"
  shows "table (snd (handleUserEvent env m s)) = table s
     \<and> (\<exists>e. last (logs (snd (handleUserEvent env m s))) = ERROR ''Error handling SQS message:'' e)
     \<and> (truthy (js_get user ''id'') \<and> (\<exists>it. fst (create_params env user s) = Inr it) \<longrightarrow>
          (\<exists>c e. dynamo_sent (snd (handleUserEvent env m s)) = dynamo_sent s @ [c]
              \<and> ConditionExpression c = attribute_exists ''id''
              \<and> logs (snd (handleUserEvent env m s)) =
                  logs s @ [ERROR ''Error updating user in DynamoDB'' e,
                            ERROR ''Error handling SQS message:''
                              (BadRequestException ''Failed to update user'')]))"
proof (cases "fst (create_params env user s)")
  case (Inl e)
  then show ?thesis
    by (simp add: handleUserEvent_def handleUserEvent_parsed[OF parsed] create_params_frame
        logger_error_def)
next
  case (Inr it)
  define s1 where "s1 = snd (create_params env user s)"
  have frame: "table s1 = table s" "logs s1 = logs s" "dynamo_sent s1 = dynamo_sent s"
    by (simp_all add: s1_def create_params_frame)
  have missing1: "get_item (table s1) k = None"
    using missing frame by simp
  show ?thesis
  proof (cases "operation = JStr ''update''")
    case True
    have tr: "handleUserEvent_try env m s = handleUserEvent_update env user s1"
      using Inr True by (simp add: handleUserEvent_parsed[OF parsed] s1_def)
    obtain e s' where r: "handleUserEvent_update env user s1 = (Some e, s')" "table s' = table s1"
      using update_missing[OF key missing1] by blast
    have a: "table (snd (handleUserEvent env m s)) = table s"
      using r frame by (simp add: handleUserEvent_def tr logger_error_def)
    have b: "\<exists>e. last (logs (snd (handleUserEvent env m s))) = ERROR ''Error handling SQS message:'' e"
      using r by (simp add: handleUserEvent_def tr logger_error_def)
    have c: "\<exists>c e. dynamo_sent (snd (handleUserEvent env m s)) = dynamo_sent s @ [c]
              \<and> ConditionExpression c = attribute_exists ''id''
              \<and> logs (snd (handleUserEvent env m s)) =
                  logs s @ [ERROR ''Error updating user in DynamoDB'' e,
                            ERROR ''Error handling SQS message:''
                              (BadRequestException ''Failed to update user'')]"
      if id: "truthy (js_get user ''id'')"
    proof -
      from update_missing_sent[OF key missing1 id] r frame
      show ?thesis
        by (auto simp add: handleUserEvent_def tr logger_error_def)
    qed
    show ?thesis using a b c by blast
  next
    case False
    with op have us: "operation = JStr ''updateStatus''" by simp
    have tr: "handleUserEvent_try env m s = handleUserEvent_updateStatus env user s1"
      using Inr us by (simp add: handleUserEvent_parsed[OF parsed] s1_def)
    obtain e s' where r: "handleUserEvent_updateStatus env user s1 = (Some e, s')" "table s' = table s1"
      using updateStatus_missing[OF key missing1] by blast
    have a: "table (snd (handleUserEvent env m s)) = table s"
      using r frame by (simp add: handleUserEvent_def tr logger_error_def)
    have b: "\<exists>e. last (logs (snd (handleUserEvent env m s))) = ERROR ''Error handling SQS message:'' e"
      using r by (simp add: handleUserEvent_def tr logger_error_def)
    have c: "\<exists>c e. dynamo_sent (snd (handleUserEvent env m s)) = dynamo_sent s @ [c]
              \<and> ConditionExpression c = attribute_exists ''id''
              \<and> logs (snd (handleUserEvent env m s)) =
                  logs s @ [ERROR ''Error updating user in DynamoDB'' e,
                            ERROR ''Error handling SQS message:''
                              (BadRequestException ''Failed to update user'')]"
      if id: "truthy (js_get user ''id'')"
    proof -
      from updateStatus_missing_sent[OF key missing1 id] r frame
      show ?thesis
        by (auto simp add: handleUserEvent_def tr logger_error_def)
    qed
    show ?thesis using a b c by blast
  qed
qed

theorem update_of_missing_record_rejected_witness:
  "table (snd (handleUserEvent quiet_world (Message (Some ''missing-update'') (Some ''h'')) abc_state)) = [abc_record]
   \<and> logs (snd (handleUserEvent quiet_world (Message (Some ''missing-update'') (Some ''h'')) abc_state)) =
        [ERROR ''Error updating user in DynamoDB'' (ServiceException ''ConditionalCheckFailedException''),
         ERROR ''Error handling SQS message:'' (BadRequestException ''Failed to update user'')]"
proof -
  have p: "parse_event quiet_world (Message (Some ''missing-update'') (Some ''h''))
             = Inr (missing_update, JObj [(''id'', JStr ''missing-id'')], JStr ''update'')"
    by (simp add: parse_event_def quiet_world_def parse_fixture_def missing_update_def js_get_checked_def)
  have k: "convertToAttr quiet_world (js_get (JObj [(''id'', JStr ''missing-id'')]) ''id'') = Inr (S (JStr ''missing-id''))"
    by (simp add: convertToAttr_def)
  have g: "get_item (table abc_state) (S (JStr ''missing-id'')) = None"
    by (simp add: abc_state_def empty_state_def get_item_def abc_record_def)
  have o: "JStr ''update'' = JStr ''update'' \<or> JStr ''update'' = JStr ''updateStatus''" by simp
  have c: "\<exists>it. fst (create_params quiet_world (JObj [(''id'', JStr ''missing-id'')]) abc_state) = Inr it"
    by (simp add: create_params_def call_uuidv4_def new_Date_toISOString_def js_or_def convertToAttr_def)
  have l: "logs (snd (handleUserEvent quiet_world (Message (Some ''missing-update'') (Some ''h'')) abc_state)) =
        [ERROR ''Error updating user in DynamoDB'' (ServiceException ''ConditionalCheckFailedException''),
         ERROR ''Error handling SQS message:'' (BadRequestException ''Failed to update user'')]"
    by (simp add: handleUserEvent_def handleUserEvent_try_def parse_event_def js_get_checked_def
        parse_fixture_def missing_update_def create_params_def call_uuidv4_def js_or_def convertToAttr_def
        handleUserEvent_update_def update_params_def new_Date_toISOString_def dynamoDBClient_send_def
        quiet_world_def abc_state_def empty_state_def
        logger_error_def wire_ok_def condition_holds_def get_item_def abc_record_def)
  from update_of_missing_record_rejected[OF p o k g] c l
  show ?thesis by (simp add: abc_state_def empty_state_def)
qed

section \<open>What each branch of the dispatcher does\<close>

lemma send_frame:
  "dynamo_sent (snd (dynamoDBClient_send env c s)) = dynamo_sent s @ [c]"
  "sqs_sent (snd (dynamoDBClient_send env c s)) = sqs_sent s"
  "pending (snd (dynamoDBClient_send env c s)) = pending s"
  "logs (snd (dynamoDBClient_send env c s)) = logs s"
  "uuid_calls (snd (dynamoDBClient_send env c s)) = uuid_calls s"
  "date_calls (snd (dynamoDBClient_send env c s)) = date_calls s"
  by (simp_all add: dynamoDBClient_send_def Let_def split: option.splits sum.splits prod.splits)

lemma send_fst_cong:
  "table s1 = table s \<Longrightarrow> dynamo_sent s1 = dynamo_sent s \<Longrightarrow>
   fst (dynamoDBClient_send env c s1) = fst (dynamoDBClient_send env c s)"
  by (simp add: dynamoDBClient_send_def Let_def split: option.splits sum.splits prod.splits)

lemma send_failed_table:
  "fst (dynamoDBClient_send env c s) = Inl e \<Longrightarrow> table (snd (dynamoDBClient_send env c s)) = table s"
  by (simp add: dynamoDBClient_send_def Let_def split: option.splits sum.splits prod.splits)

lemma create_branch:
  "fst (handleUserEvent_create env body it s) = None"
  "dynamo_sent (snd (handleUserEvent_create env body it s)) = dynamo_sent s @ [PutItemCommand (tableName env) it]"
  "sqs_sent (snd (handleUserEvent_create env body it s)) = sqs_sent s"
  "pending (snd (handleUserEvent_create env body it s)) = pending s"
  "table (snd (handleUserEvent_create env body it s)) = table (snd (dynamoDBClient_send env (PutItemCommand (tableName env) it) s))"
  "logs (snd (handleUserEvent_create env body it s)) = logs s @
     [case fst (dynamoDBClient_send env (PutItemCommand (tableName env) it) s) of
        Inr out \<Rightarrow> LOG ''User ${body.user.firstName} created successfully.'' [js_get (js_get body ''user'') ''firstName'']
      | Inl e \<Rightarrow> ERROR ''Error creating user in DynamoDB'' e]"
  by (simp_all add: handleUserEvent_create_def case_prod_beta logger_log_def logger_error_def send_frame
      split: sum.splits)

lemma update_branch_noid:
  "\<not> truthy (js_get user ''id'') \<Longrightarrow>
   handleUserEvent_update env user s = (Some (Error ''Correct ID required for update operation''), s)"
  by (simp add: handleUserEvent_update_def)

lemma update_branch_badkey:
  "truthy (js_get user ''id'') \<Longrightarrow> convertToAttr env (js_get user ''id'') = Inl e \<Longrightarrow>
   handleUserEvent_update env user s = (Some e, s\<lparr>date_calls := date_calls s + 1\<rparr>)"
  by (simp add: handleUserEvent_update_def new_Date_toISOString_def marshall_id)

lemma update_branch_sent:
  assumes "truthy (js_get user ''id'')" "convertToAttr env (js_get user ''id'') = Inr k"
  shows "handleUserEvent_update env user s =
     (case fst (dynamoDBClient_send env (update_params env user (toISOString env (date_calls s)) [''id'' \<mapsto> k])
                  (s\<lparr>date_calls := date_calls s + 1\<rparr>)) of
        Inr out \<Rightarrow> (None, logger_log ''User ${user.id} updated successfully.'' [js_get user ''id'']
           (snd (dynamoDBClient_send env (update_params env user (toISOString env (date_calls s)) [''id'' \<mapsto> k])
                  (s\<lparr>date_calls := date_calls s + 1\<rparr>))))
      | Inl error \<Rightarrow> (Some (BadRequestException ''Failed to update user''),
           logger_error ''Error updating user in DynamoDB'' error
           (snd (dynamoDBClient_send env (update_params env user (toISOString env (date_calls s)) [''id'' \<mapsto> k])
                  (s\<lparr>date_calls := date_calls s + 1\<rparr>)))))"
  using assms
  by (simp add: handleUserEvent_update_def new_Date_toISOString_def marshall_id case_prod_beta
      split: sum.splits)

lemma updateStatus_branch_noid:
  "\<not> truthy (js_get user ''id'') \<Longrightarrow>
   handleUserEvent_updateStatus env user s =
     (Some (BadRequestException ''ID required for status update operation''), s)"
  by (simp add: handleUserEvent_updateStatus_def)

lemma updateStatus_branch_badkey:
  "truthy (js_get user ''id'') \<Longrightarrow> convertToAttr env (js_get user ''id'') = Inl e \<Longrightarrow>
   handleUserEvent_updateStatus env user s = (Some e, s\<lparr>date_calls := date_calls s + 1\<rparr>)"
  by (simp add: handleUserEvent_updateStatus_def new_Date_toISOString_def marshall_id)

lemma updateStatus_branch_sent:
  assumes "truthy (js_get user ''id'')" "convertToAttr env (js_get user ''id'') = Inr k"
  shows "handleUserEvent_updateStatus env user s =
     (case fst (dynamoDBClient_send env (updateStatus_params env user (toISOString env (date_calls s)) [''id'' \<mapsto> k])
                  (s\<lparr>date_calls := date_calls s + 1\<rparr>)) of
        Inr out \<Rightarrow> (None, logger_log ''User ${user.id} status updated successfully.'' [js_get user ''id'']
           (snd (dynamoDBClient_send env (updateStatus_params env user (toISOString env (date_calls s)) [''id'' \<mapsto> k])
                  (s\<lparr>date_calls := date_calls s + 1\<rparr>))))
      | Inl error \<Rightarrow> (Some (BadRequestException ''Failed to update user''),
           logger_error ''Error updating user in DynamoDB'' error
           (snd (dynamoDBClient_send env (updateStatus_params env user (toISOString env (date_calls s)) [''id'' \<mapsto> k])
                  (s\<lparr>date_calls := date_calls s + 1\<rparr>)))))"
  using assms
  by (simp add: handleUserEvent_updateStatus_def new_Date_toISOString_def marshall_id case_prod_beta
      split: sum.splits)

text \<open>What a branch does, whatever the path: queue untouched, logs grow, at most one request.\<close>

lemma update_branch_summary:
  "sqs_sent (snd (handleUserEvent_update env user s)) = sqs_sent s"
  "pending (snd (handleUserEvent_update env user s)) = pending s"
  "dynamo_sent (snd (handleUserEvent_update env user s)) = dynamo_sent s @ [c] \<Longrightarrow>
     fst (dynamoDBClient_send env c s) = Inl e \<Longrightarrow>
     ERROR ''Error updating user in DynamoDB'' e \<in> set (logs (snd (handleUserEvent_update env user s)))"
proof -
  consider (noid) "\<not> truthy (js_get user ''id'')"
    | (badkey) e where "truthy (js_get user ''id'')" "convertToAttr env (js_get user ''id'') = Inl e"
    | (sent) k where "truthy (js_get user ''id'')" "convertToAttr env (js_get user ''id'') = Inr k"
    by (cases "convertToAttr env (js_get user ''id'')") auto
  note cases = this
  show "sqs_sent (snd (handleUserEvent_update env user s)) = sqs_sent s"
    by (rule cases)
      (simp_all add: update_branch_noid update_branch_badkey update_branch_sent
        logger_log_def logger_error_def send_frame split: sum.splits)
  show "pending (snd (handleUserEvent_update env user s)) = pending s"
    by (rule cases)
      (simp_all add: update_branch_noid update_branch_badkey update_branch_sent
        logger_log_def logger_error_def send_frame split: sum.splits)
  show "ERROR ''Error updating user in DynamoDB'' e \<in> set (logs (snd (handleUserEvent_update env user s)))"
    if a: "dynamo_sent (snd (handleUserEvent_update env user s)) = dynamo_sent s @ [c]"
      and b: "fst (dynamoDBClient_send env c s) = Inl e"
  proof (rule cases)
    assume "\<not> truthy (js_get user ''id'')"
    with a show ?thesis by (simp add: update_branch_noid)
  next
    fix e' assume "truthy (js_get user ''id'')" "convertToAttr env (js_get user ''id'') = Inl e'"
    with a show ?thesis by (simp add: update_branch_badkey)
  next
    fix k assume h: "truthy (js_get user ''id'')" "convertToAttr env (js_get user ''id'') = Inr k"
    have c: "c = update_params env user (toISOString env (date_calls s)) [''id'' \<mapsto> k]"
      using a by (simp add: update_branch_sent[OF h] logger_log_def logger_error_def send_frame split: sum.splits)
    have "fst (dynamoDBClient_send env c (s\<lparr>date_calls := date_calls s + 1\<rparr>)) = Inl e"
      using b send_fst_cong[of "s\<lparr>date_calls := date_calls s + 1\<rparr>" s env c] by simp
    then show ?thesis
      by (simp add: update_branch_sent[OF h] c[symmetric] logger_error_def send_frame)
  qed
qed



lemma updateStatus_branch_summary:
  "sqs_sent (snd (handleUserEvent_updateStatus env user s)) = sqs_sent s"
  "pending (snd (handleUserEvent_updateStatus env user s)) = pending s"
  "dynamo_sent (snd (handleUserEvent_updateStatus env user s)) = dynamo_sent s @ [c] \<Longrightarrow>
     fst (dynamoDBClient_send env c s) = Inl e \<Longrightarrow>
     ERROR ''Error updating user in DynamoDB'' e \<in> set (logs (snd (handleUserEvent_updateStatus env user s)))"
proof -
  consider (noid) "\<not> truthy (js_get user ''id'')"
    | (badkey) e where "truthy (js_get user ''id'')" "convertToAttr env (js_get user ''id'') = Inl e"
    | (sent) k where "truthy (js_get user ''id'')" "convertToAttr env (js_get user ''id'') = Inr k"
    by (cases "convertToAttr env (js_get user ''id'')") auto
  note cases = this
  show "sqs_sent (snd (handleUserEvent_updateStatus env user s)) = sqs_sent s"
    by (rule cases)
      (simp_all add: updateStatus_branch_noid updateStatus_branch_badkey updateStatus_branch_sent
        logger_log_def logger_error_def send_frame split: sum.splits)
  show "pending (snd (handleUserEvent_updateStatus env user s)) = pending s"
    by (rule cases)
      (simp_all add: updateStatus_branch_noid updateStatus_branch_badkey updateStatus_branch_sent
        logger_log_def logger_error_def send_frame split: sum.splits)
  show "ERROR ''Error updating user in DynamoDB'' e \<in> set (logs (snd (handleUserEvent_updateStatus env user s)))"
    if a: "dynamo_sent (snd (handleUserEvent_updateStatus env user s)) = dynamo_sent s @ [c]"
      and b: "fst (dynamoDBClient_send env c s) = Inl e"
  proof (rule cases)
    assume "\<not> truthy (js_get user ''id'')"
    with a show ?thesis by (simp add: updateStatus_branch_noid)
  next
    fix e' assume "truthy (js_get user ''id'')" "convertToAttr env (js_get user ''id'') = Inl e'"
    with a show ?thesis by (simp add: updateStatus_branch_badkey)
  next
    fix k assume h: "truthy (js_get user ''id'')" "convertToAttr env (js_get user ''id'') = Inr k"
    have c: "c = updateStatus_params env user (toISOString env (date_calls s)) [''id'' \<mapsto> k]"
      using a by (simp add: updateStatus_branch_sent[OF h] logger_log_def logger_error_def send_frame split: sum.splits)
    have "fst (dynamoDBClient_send env c (s\<lparr>date_calls := date_calls s + 1\<rparr>)) = Inl e"
      using b send_fst_cong[of "s\<lparr>date_calls := date_calls s + 1\<rparr>" s env c] by simp
    then show ?thesis
      by (simp add: updateStatus_branch_sent[OF h] c[symmetric] logger_error_def send_frame)
  qed
qed


lemma try_queue_frame:
  "sqs_sent (snd (handleUserEvent_try env m s)) = sqs_sent s"
  "pending (snd (handleUserEvent_try env m s)) = pending s"
proof -
  show "sqs_sent (snd (handleUserEvent_try env m s)) = sqs_sent s"
  proof (cases "parse_event env m")
    case (Inl e)
    then show ?thesis by (simp add: handleUserEvent_try_def)
  next
    case (Inr r)
    obtain body user operation where r: "r = (body, user, operation)" by (cases r) auto
    show ?thesis
      by (simp add: handleUserEvent_parsed[OF Inr[unfolded r]] create_params_frame create_branch
          update_branch_summary updateStatus_branch_summary logger_warn_def split: sum.splits)
  qed
  show "pending (snd (handleUserEvent_try env m s)) = pending s"
  proof (cases "parse_event env m")
    case (Inl e)
    then show ?thesis by (simp add: handleUserEvent_try_def)
  next
    case (Inr r)
    obtain body user operation where r: "r = (body, user, operation)" by (cases r) auto
    show ?thesis
      by (simp add: handleUserEvent_parsed[OF Inr[unfolded r]] create_params_frame create_branch
          update_branch_summary updateStatus_branch_summary logger_warn_def split: sum.splits)
  qed
qed

lemma try_store_error_logged:
  assumes a: "dynamo_sent (snd (handleUserEvent_try env m s)) = dynamo_sent s @ [c]"
    and b: "fst (dynamoDBClient_send env c s) = Inl e"
  shows "\<exists>msg. ERROR msg e \<in> set (logs (snd (handleUserEvent_try env m s)))"
proof (cases "parse_event env m")
  case (Inl e)
  with a show ?thesis by (simp add: handleUserEvent_try_def)
next
  case (Inr r)
  obtain body user operation where r: "r = (body, user, operation)" by (cases r) auto
  note parsed = handleUserEvent_parsed[OF Inr[unfolded r]]
  define s1 where "s1 = snd (create_params env user s)"
  have frame: "table s1 = table s" "dynamo_sent s1 = dynamo_sent s"
    by (simp_all add: s1_def create_params_frame)
  have b1: "fst (dynamoDBClient_send env c s1) = Inl e"
    using b send_fst_cong[OF frame] by simp
  show ?thesis
  proof (cases "fst (create_params env user s)")
    case (Inl e')
    with a show ?thesis by (simp add: parsed create_params_frame)
  next
    case (Inr it)
    consider (create) "operation = JStr ''create''" | (update) "operation = JStr ''update''"
      | (updateStatus) "operation = JStr ''updateStatus''"
      | (unknown) "operation \<noteq> JStr ''create''" "operation \<noteq> JStr ''update''"
          "operation \<noteq> JStr ''updateStatus''"
      by blast
    then show ?thesis
    proof cases
      case create
      have "c = PutItemCommand (tableName env) it"
        using a Inr create by (simp add: parsed create_branch s1_def[symmetric] frame)
      with b1 show ?thesis
        using Inr create by (auto simp add: parsed create_branch s1_def[symmetric])
    next
      case update
      have "dynamo_sent (snd (handleUserEvent_update env user s1)) = dynamo_sent s1 @ [c]"
        using a Inr update by (simp add: parsed s1_def[symmetric] frame)
      from update_branch_summary(3)[OF this b1] show ?thesis
        using Inr update by (auto simp add: parsed s1_def[symmetric])
    next
      case updateStatus
      have "dynamo_sent (snd (handleUserEvent_updateStatus env user s1)) = dynamo_sent s1 @ [c]"
        using a Inr updateStatus by (simp add: parsed s1_def[symmetric] frame)
      from updateStatus_branch_summary(3)[OF this b1] show ?thesis
        using Inr updateStatus by (auto simp add: parsed s1_def[symmetric])
    next
      case unknown
      with a Inr show ?thesis
        by (simp add: parsed create_params_frame logger_warn_def)
    qed
  qed
qed

lemma handleUserEvent_queue_frame:
  "sqs_sent (snd (handleUserEvent env m s)) = sqs_sent s"
  "pending (snd (handleUserEvent env m s)) = pending s"
  using try_queue_frame[of env m s]
  by (simp_all add: handleUserEvent_def case_prod_beta logger_error_def split: option.splits)

section \<open>A malformed message writes nothing\<close>

text \<open>
  C7.  A malformed message makes no request to the store and changes no record: a
  message with no body (or an empty one), a body that lacks \<^verbatim>\<open>user\<close> or
  \<^verbatim>\<open>operation\<close> (in particular both), and an \<^verbatim>\<open>update\<close> or
  \<^verbatim>\<open>updateStatus\<close> event without a truthy \<^verbatim>\<open>user.id\<close>.  The failure is
  logged by the outer \<^verbatim>\<open>catch\<close> and nothing is thrown to the caller.
\<close>

theorem malformed_message_writes_nothing:
  assumes "Body m = None \<or> Body m = Some []
     \<or> (\<exists>t body. Body m = Some t \<and> JSON_parse env t = Some body
           \<and> (\<not> truthy (js_get body ''user'') \<or> \<not> truthy (js_get body ''operation'')))
     \<or> (\<exists>body user operation. parse_event env m = Inr (body, user, operation)
           \<and> (operation = JStr ''update'' \<or> operation = JStr ''updateStatus'')
           \<and> \<not> truthy (js_get user ''id''))"
  shows "fst (handleUserEvent env m s) = None
     \<and> dynamo_sent (snd (handleUserEvent env m s)) = dynamo_sent s
     \<and> table (snd (handleUserEvent env m s)) = table s
     \<and> (\<exists>e. logs (snd (handleUserEvent env m s)) = logs s @ [ERROR ''Error handling SQS message:'' e])"
proof -
  consider (nobody) "Body m = None \<or> Body m = Some []"
    | (nofields) t body where "Body m = Some t" "JSON_parse env t = Some body"
        "\<not> truthy (js_get body ''user'') \<or> \<not> truthy (js_get body ''operation'')"
    | (noid) body user operation where "parse_event env m = Inr (body, user, operation)"
        "operation = JStr ''update'' \<or> operation = JStr ''updateStatus''"
        "\<not> truthy (js_get user ''id'')"
    using assms by blast
  then have "\<exists>e s1. handleUserEvent_try env m s = (Some e, s1) \<and> dynamo_sent s1 = dynamo_sent s
                \<and> table s1 = table s \<and> logs s1 = logs s"
  proof cases
    case nobody
    then show ?thesis by (auto simp add: handleUserEvent_try_def parse_event_def)
  next
    case nofields
    then show ?thesis
      by (auto simp add: handleUserEvent_try_def parse_event_def js_get_checked_def)
  next
    case noid
    show ?thesis
    proof (cases "fst (create_params env user s)")
      case (Inl e)
      then show ?thesis
        by (simp add: handleUserEvent_parsed[OF noid(1)] create_params_frame)
    next
      case (Inr it)
      then show ?thesis
        using noid(2,3)
        by (auto simp add: handleUserEvent_parsed[OF noid(1)] create_params_frame
            update_branch_noid updateStatus_branch_noid)
    qed
  qed
  then obtain e s1 where r: "handleUserEvent_try env m s = (Some e, s1)"
    "dynamo_sent s1 = dynamo_sent s" "table s1 = table s" "logs s1 = logs s"
    by blast
  then show ?thesis
    by (simp add: handleUserEvent_def logger_error_def)
qed

theorem malformed_message_writes_nothing_witness:
  "dynamo_sent (snd (handleUserEvent quiet_world (Message None (Some ''h'')) abc_state)) = []
   \<and> table (snd (handleUserEvent quiet_world (Message None (Some ''h'')) abc_state)) = [abc_record]
   \<and> dynamo_sent (snd (handleUserEvent quiet_world (Message (Some ''{}'') (Some ''h'')) abc_state)) = []
   \<and> table (snd (handleUserEvent quiet_world (Message (Some ''{}'') (Some ''h'')) abc_state)) = [abc_record]
   \<and> dynamo_sent (snd (handleUserEvent quiet_world (Message (Some ''noid-update'') (Some ''h'')) abc_state)) = []
   \<and> table (snd (handleUserEvent quiet_world (Message (Some ''noid-update'') (Some ''h'')) abc_state))
       = [abc_record]"
proof -
  have p1: "JSON_parse quiet_world ''{}'' = Some (JObj [])"
    by (simp add: quiet_world_def parse_fixture_def)
  have p2: "parse_event quiet_world (Message (Some ''noid-update'') (Some ''h''))
      = Inr (noid_update, JObj [(''firstName'', JStr ''Jane'')], JStr ''update'')"
    by (simp add: parse_event_def quiet_world_def parse_fixture_def noid_update_def js_get_checked_def)
  have a: "dynamo_sent (snd (handleUserEvent quiet_world (Message None (Some ''h'')) abc_state)) = []
   \<and> table (snd (handleUserEvent quiet_world (Message None (Some ''h'')) abc_state)) = [abc_record]"
    using malformed_message_writes_nothing[of "Message None (Some ''h'')" quiet_world abc_state]
    by (simp add: abc_state_def empty_state_def)
  have b: "dynamo_sent (snd (handleUserEvent quiet_world (Message (Some ''{}'') (Some ''h'')) abc_state)) = []
   \<and> table (snd (handleUserEvent quiet_world (Message (Some ''{}'') (Some ''h'')) abc_state)) = [abc_record]"
    using malformed_message_writes_nothing[of "Message (Some ''{}'') (Some ''h'')" quiet_world abc_state] p1
    by (simp add: abc_state_def empty_state_def)
  have c: "dynamo_sent (snd (handleUserEvent quiet_world (Message (Some ''noid-update'') (Some ''h'')) abc_state)) = []
   \<and> table (snd (handleUserEvent quiet_world (Message (Some ''noid-update'') (Some ''h'')) abc_state))
       = [abc_record]"
    using malformed_message_writes_nothing[of "Message (Some ''noid-update'') (Some ''h'')" quiet_world abc_state] p2
    by (simp add: abc_state_def empty_state_def)
  show ?thesis using a b c by blast
qed

section \<open>What an update writes\<close>

lemma store_apply_update:
  assumes "get_item tbl k = Some old"
    and "wire_ok (S (js_or (js_get user ''firstName'') (JStr [])))"
    and "wire_ok (S (js_or (js_get user ''lastName'') (JStr [])))"
    and "wire_ok (S (js_or (js_get user ''dob'') (JStr [])))"
  shows "store_apply (update_params env user now [''id'' \<mapsto> k]) tbl =
     Inr (DynamoOutput None,
          put_item tbl k
            (old(''firstName'' \<mapsto> S (js_or (js_get user ''firstName'') (JStr [])),
                 ''lastName'' \<mapsto> S (js_or (js_get user ''lastName'') (JStr [])),
                 ''dob'' \<mapsto> S (js_or (js_get user ''dob'') (JStr [])),
                 ''updatedAt'' \<mapsto> S (JStr now),
                 ''status'' \<mapsto> S (JStr ''updated''))))"
  using assms get_item_Some_id[OF assms(1)]
  by (simp add: update_params_def condition_holds_def resolve_name_def wire_ok_def)

lemma store_apply_update_cases:
  "(\<exists>e. store_apply (update_params env user now [''id'' \<mapsto> k]) tbl = Inl e) \<or>
   (\<exists>old. get_item tbl k = Some old \<and>
     store_apply (update_params env user now [''id'' \<mapsto> k]) tbl =
     Inr (DynamoOutput None,
          put_item tbl k
            (old(''firstName'' \<mapsto> S (js_or (js_get user ''firstName'') (JStr [])),
                 ''lastName'' \<mapsto> S (js_or (js_get user ''lastName'') (JStr [])),
                 ''dob'' \<mapsto> S (js_or (js_get user ''dob'') (JStr [])),
                 ''updatedAt'' \<mapsto> S (JStr now),
                 ''status'' \<mapsto> S (JStr ''updated'')))))"
  by (cases "get_item tbl k")
     (simp_all add: update_params_def condition_holds_def resolve_name_def)

lemma store_apply_updateStatus:
  assumes "get_item tbl k = Some old"
    and "wire_ok (S (js_or (js_get user ''status'') (JStr [])))"
  shows "store_apply (updateStatus_params env user now [''id'' \<mapsto> k]) tbl =
     Inr (DynamoOutput None,
          put_item tbl k
            (old(''status'' \<mapsto> S (js_or (js_get user ''status'') (JStr [])),
                 ''updatedAt'' \<mapsto> S (JStr now))))"
  using assms get_item_Some_id[OF assms(1)]
  by (simp add: updateStatus_params_def condition_holds_def resolve_name_def wire_ok_def)

lemma store_apply_updateStatus_cases:
  "(\<exists>e. store_apply (updateStatus_params env user now [''id'' \<mapsto> k]) tbl = Inl e) \<or>
   (\<exists>old. get_item tbl k = Some old \<and>
     store_apply (updateStatus_params env user now [''id'' \<mapsto> k]) tbl =
     Inr (DynamoOutput None,
          put_item tbl k
            (old(''status'' \<mapsto> S (js_or (js_get user ''status'') (JStr [])),
                 ''updatedAt'' \<mapsto> S (JStr now)))))"
  by (cases "get_item tbl k")
     (simp_all add: updateStatus_params_def condition_holds_def resolve_name_def)

lemma send_ok:
  "dynamo_fault env (length (dynamo_sent s)) = None \<Longrightarrow> store_apply c (table s) = Inr (out, tbl) \<Longrightarrow>
   fst (dynamoDBClient_send env c s) = Inr out \<and> table (snd (dynamoDBClient_send env c s)) = tbl"
  by (simp add: dynamoDBClient_send_def Let_def)

lemma send_table_cases:
  "table (snd (dynamoDBClient_send env c s)) = table s \<or>
   (\<exists>out. store_apply c (table s) = Inr (out, table (snd (dynamoDBClient_send env c s))))"
  by (simp add: dynamoDBClient_send_def Let_def split: option.splits sum.splits prod.splits)


lemma put_item_frame:
  assumes "get_item tbl k = Some old" "new ''id'' = Some k" "R new old" "\<And>x. R x x"
  shows "rel_option R (get_item (put_item tbl k new) k') (get_item tbl k')"
proof (cases "k' = k")
  case True
  then show ?thesis using assms by (simp add: get_item_put_item_same)
next
  case False
  then show ?thesis using assms(2,4)
    by (simp add: get_item_put_item_other option.rel_refl)
qed

lemma update_table_cases:
  "table (snd (handleUserEvent_update env user s)) = table s \<or>
   (\<exists>k old. convertToAttr env (js_get user ''id'') = Inr k \<and> get_item (table s) k = Some old \<and>
      table (snd (handleUserEvent_update env user s)) =
        put_item (table s) k
          (old(''firstName'' \<mapsto> S (js_or (js_get user ''firstName'') (JStr [])),
               ''lastName'' \<mapsto> S (js_or (js_get user ''lastName'') (JStr [])),
               ''dob'' \<mapsto> S (js_or (js_get user ''dob'') (JStr [])),
               ''updatedAt'' \<mapsto> S (JStr (toISOString env (date_calls s))),
               ''status'' \<mapsto> S (JStr ''updated''))))"
proof -
  consider (noid) "\<not> truthy (js_get user ''id'')"
    | (badkey) e where "truthy (js_get user ''id'')" "convertToAttr env (js_get user ''id'') = Inl e"
    | (sent) k where "truthy (js_get user ''id'')" "convertToAttr env (js_get user ''id'') = Inr k"
    by (cases "convertToAttr env (js_get user ''id'')") auto
  then show ?thesis
  proof cases
    case noid
    then show ?thesis by (simp add: update_branch_noid)
  next
    case badkey
    then show ?thesis by (simp add: update_branch_badkey)
  next
    case sent
    define c where "c = update_params env user (toISOString env (date_calls s)) [''id'' \<mapsto> k]"
    define s1 where "s1 = s\<lparr>date_calls := date_calls s + 1\<rparr>"
    have tbl: "table (snd (handleUserEvent_update env user s)) = table (snd (dynamoDBClient_send env c s1))"
      by (simp add: update_branch_sent[OF sent] c_def s1_def logger_log_def logger_error_def
          split: sum.splits)
    have s1: "table s1 = table s" by (simp add: s1_def)
    from send_table_cases[of env c s1] store_apply_update_cases[of env user "toISOString env (date_calls s)" k "table s"]
    show ?thesis
      unfolding tbl s1 c_def[symmetric] using sent(2) by auto
  qed
qed

lemma updateStatus_table_cases:
  "table (snd (handleUserEvent_updateStatus env user s)) = table s \<or>
   (\<exists>k old. convertToAttr env (js_get user ''id'') = Inr k \<and> get_item (table s) k = Some old \<and>
      table (snd (handleUserEvent_updateStatus env user s)) =
        put_item (table s) k
          (old(''status'' \<mapsto> S (js_or (js_get user ''status'') (JStr [])),
               ''updatedAt'' \<mapsto> S (JStr (toISOString env (date_calls s))))))"
proof -
  consider (noid) "\<not> truthy (js_get user ''id'')"
    | (badkey) e where "truthy (js_get user ''id'')" "convertToAttr env (js_get user ''id'') = Inl e"
    | (sent) k where "truthy (js_get user ''id'')" "convertToAttr env (js_get user ''id'') = Inr k"
    by (cases "convertToAttr env (js_get user ''id'')") auto
  then show ?thesis
  proof cases
    case noid
    then show ?thesis by (simp add: updateStatus_branch_noid)
  next
    case badkey
    then show ?thesis by (simp add: updateStatus_branch_badkey)
  next
    case sent
    define c where "c = updateStatus_params env user (toISOString env (date_calls s)) [''id'' \<mapsto> k]"
    define s1 where "s1 = s\<lparr>date_calls := date_calls s + 1\<rparr>"
    have tbl: "table (snd (handleUserEvent_updateStatus env user s)) = table (snd (dynamoDBClient_send env c s1))"
      by (simp add: updateStatus_branch_sent[OF sent] c_def s1_def logger_log_def logger_error_def
          split: sum.splits)
    have s1: "table s1 = table s" by (simp add: s1_def)
    from send_table_cases[of env c s1] store_apply_updateStatus_cases[of env user "toISOString env (date_calls s)" k "table s"]
    show ?thesis
      unfolding tbl s1 c_def[symmetric] using sent(2) by auto
  qed
qed

lemma handleUserEvent_table:
  "table (snd (handleUserEvent env m s)) = table (snd (handleUserEvent_try env m s))"
  by (simp add: handleUserEvent_def case_prod_beta logger_error_def split: option.splits)

lemma update_success:
  assumes "truthy (js_get user ''id'')" "convertToAttr env (js_get user ''id'') = Inr k"
    and "get_item (table s) k = Some old"
    and "dynamo_fault env (length (dynamo_sent s)) = None"
    and "wire_ok (S (js_or (js_get user ''firstName'') (JStr [])))"
    and "wire_ok (S (js_or (js_get user ''lastName'') (JStr [])))"
    and "wire_ok (S (js_or (js_get user ''dob'') (JStr [])))"
  shows "table (snd (handleUserEvent_update env user s)) =
        put_item (table s) k
          (old(''firstName'' \<mapsto> S (js_or (js_get user ''firstName'') (JStr [])),
               ''lastName'' \<mapsto> S (js_or (js_get user ''lastName'') (JStr [])),
               ''dob'' \<mapsto> S (js_or (js_get user ''dob'') (JStr [])),
               ''updatedAt'' \<mapsto> S (JStr (toISOString env (date_calls s))),
               ''status'' \<mapsto> S (JStr ''updated'')))"
proof -
  define c where "c = update_params env user (toISOString env (date_calls s)) [''id'' \<mapsto> k]"
  define s1 where "s1 = s\<lparr>date_calls := date_calls s + 1\<rparr>"
  have tbl: "table (snd (handleUserEvent_update env user s)) = table (snd (dynamoDBClient_send env c s1))"
    by (simp add: update_branch_sent[OF assms(1,2)] c_def s1_def logger_log_def logger_error_def
        split: sum.splits)
  have "dynamo_fault env (length (dynamo_sent s1)) = None" "get_item (table s1) k = Some old"
    using assms by (simp_all add: s1_def)
  from send_ok[OF this(1) store_apply_update[OF this(2) assms(5,6,7), of env "toISOString env (date_calls s)"]]
  show ?thesis unfolding tbl c_def[symmetric] by (simp add: s1_def)
qed

lemma updateStatus_success:
  assumes "truthy (js_get user ''id'')" "convertToAttr env (js_get user ''id'') = Inr k"
    and "get_item (table s) k = Some old"
    and "dynamo_fault env (length (dynamo_sent s)) = None"
    and "wire_ok (S (js_or (js_get user ''status'') (JStr [])))"
  shows "table (snd (handleUserEvent_updateStatus env user s)) =
        put_item (table s) k
          (old(''status'' \<mapsto> S (js_or (js_get user ''status'') (JStr [])),
               ''updatedAt'' \<mapsto> S (JStr (toISOString env (date_calls s)))))"
proof -
  define c where "c = updateStatus_params env user (toISOString env (date_calls s)) [''id'' \<mapsto> k]"
  define s1 where "s1 = s\<lparr>date_calls := date_calls s + 1\<rparr>"
  have tbl: "table (snd (handleUserEvent_updateStatus env user s)) = table (snd (dynamoDBClient_send env c s1))"
    by (simp add: updateStatus_branch_sent[OF assms(1,2)] c_def s1_def logger_log_def logger_error_def
        split: sum.splits)
  have "dynamo_fault env (length (dynamo_sent s1)) = None" "get_item (table s1) k = Some old"
    using assms by (simp_all add: s1_def)
  from send_ok[OF this(1) store_apply_updateStatus[OF this(2) assms(5), of env "toISOString env (date_calls s)"]]
  show ?thesis unfolding tbl c_def[symmetric] by (simp add: s1_def)
qed


lemma dispatch_update:
  assumes parsed: "parse_event env m = Inr (body, user, JStr ''update'')"
  shows "table (snd (handleUserEvent env m s)) =
      (case fst (create_params env user s) of Inl e \<Rightarrow> table s
       | Inr it \<Rightarrow> table (snd (handleUserEvent_update env user (snd (create_params env user s)))))"
  by (simp add: handleUserEvent_table handleUserEvent_parsed[OF parsed] create_params_frame
        split: sum.splits)

lemma dispatch_updateStatus:
  assumes parsed: "parse_event env m = Inr (body, user, JStr ''updateStatus'')"
  shows "table (snd (handleUserEvent env m s)) =
      (case fst (create_params env user s) of Inl e \<Rightarrow> table s
       | Inr it \<Rightarrow> table (snd (handleUserEvent_updateStatus env user (snd (create_params env user s)))))"
  by (simp add: handleUserEvent_table handleUserEvent_parsed[OF parsed] create_params_frame
        split: sum.splits)

lemma dispatch_update_success:
  assumes parsed: "parse_event env m = Inr (body, user, JStr ''update'')"
    and "truthy (js_get user ''id'')" "fst (create_params env user s) = Inr it"
    and "convertToAttr env (js_get user ''id'') = Inr k"
    and "get_item (table s) k = Some old"
    and "dynamo_fault env (length (dynamo_sent s)) = None"
    and "wire_ok (S (js_or (js_get user ''firstName'') (JStr [])))"
    and "wire_ok (S (js_or (js_get user ''lastName'') (JStr [])))"
    and "wire_ok (S (js_or (js_get user ''dob'') (JStr [])))"
  shows "get_item (table (snd (handleUserEvent env m s))) k =
               Some (old(''firstName'' \<mapsto> S (js_or (js_get user ''firstName'') (JStr [])),
                         ''lastName'' \<mapsto> S (js_or (js_get user ''lastName'') (JStr [])),
                         ''dob'' \<mapsto> S (js_or (js_get user ''dob'') (JStr [])),
                         ''updatedAt'' \<mapsto> S (JStr (toISOString env (date_calls s + 2))),
                         ''status'' \<mapsto> S (JStr ''updated'')))"
proof -
  define s1 where "s1 = snd (create_params env user s)"
  have frame: "table s1 = table s" "dynamo_sent s1 = dynamo_sent s" "date_calls s1 = date_calls s + 2"
    by (simp_all add: s1_def create_params_frame)
  have "table (snd (handleUserEvent_update env user s1)) =
        put_item (table s1) k
          (old(''firstName'' \<mapsto> S (js_or (js_get user ''firstName'') (JStr [])),
               ''lastName'' \<mapsto> S (js_or (js_get user ''lastName'') (JStr [])),
               ''dob'' \<mapsto> S (js_or (js_get user ''dob'') (JStr [])),
               ''updatedAt'' \<mapsto> S (JStr (toISOString env (date_calls s1))),
               ''status'' \<mapsto> S (JStr ''updated'')))"
    by (rule update_success) (use assms frame in simp_all)
  then show ?thesis
    unfolding dispatch_update[OF parsed] assms(3) sum.case s1_def[symmetric]
    using get_item_Some_id[OF assms(5)]
    by (simp add: frame get_item_put_item_same)
qed

lemma dispatch_updateStatus_success:
  assumes parsed: "parse_event env m = Inr (body, user, JStr ''updateStatus'')"
    and "truthy (js_get user ''id'')" "fst (create_params env user s) = Inr it"
    and "convertToAttr env (js_get user ''id'') = Inr k"
    and "get_item (table s) k = Some old"
    and "dynamo_fault env (length (dynamo_sent s)) = None"
    and "wire_ok (S (js_or (js_get user ''status'') (JStr [])))"
  shows "get_item (table (snd (handleUserEvent env m s))) k =
               Some (old(''status'' \<mapsto> S (js_or (js_get user ''status'') (JStr [])),
                         ''updatedAt'' \<mapsto> S (JStr (toISOString env (date_calls s + 2)))))"
proof -
  define s1 where "s1 = snd (create_params env user s)"
  have frame: "table s1 = table s" "dynamo_sent s1 = dynamo_sent s" "date_calls s1 = date_calls s + 2"
    by (simp_all add: s1_def create_params_frame)
  have "table (snd (handleUserEvent_updateStatus env user s1)) =
        put_item (table s1) k
          (old(''status'' \<mapsto> S (js_or (js_get user ''status'') (JStr [])),
               ''updatedAt'' \<mapsto> S (JStr (toISOString env (date_calls s1)))))"
    by (rule updateStatus_success) (use assms frame in simp_all)
  then show ?thesis
    unfolding dispatch_updateStatus[OF parsed] assms(3) sum.case s1_def[symmetric]
    using get_item_Some_id[OF assms(5)]
    by (simp add: frame get_item_put_item_same)
qed

lemma dispatch_update_frame:
  assumes parsed: "parse_event env m = Inr (body, user, JStr ''update'')"
  shows "rel_option
             (\<lambda>new old. \<forall>a. a \<notin> {''firstName'', ''lastName'', ''dob'', ''updatedAt'', ''status''}
                            \<longrightarrow> new a = old a)
             (get_item (table (snd (handleUserEvent env m s))) k') (get_item (table s) k')"
proof (cases "table (snd (handleUserEvent env m s)) = table s")
  case True
  then show ?thesis by (simp add: option.rel_refl)
next
  case False
  define s1 where "s1 = snd (create_params env user s)"
  have frame: "table s1 = table s" "dynamo_sent s1 = dynamo_sent s" "date_calls s1 = date_calls s + 2"
    by (simp_all add: s1_def create_params_frame)
  note tbl = dispatch_update[OF parsed, of s, unfolded s1_def[symmetric]]
  from False obtain it where it: "fst (create_params env user s) = Inr it"
    using tbl by (cases "fst (create_params env user s)") auto
  with False tbl have "table (snd (handleUserEvent_update env user s1)) \<noteq> table s1"
    by (simp add: frame)
  with update_table_cases[of env user s1] obtain k old where
    ko: "get_item (table s) k = Some old"
    "table (snd (handleUserEvent_update env user s1)) =
        put_item (table s) k
          (old(''firstName'' \<mapsto> S (js_or (js_get user ''firstName'') (JStr [])),
               ''lastName'' \<mapsto> S (js_or (js_get user ''lastName'') (JStr [])),
               ''dob'' \<mapsto> S (js_or (js_get user ''dob'') (JStr [])),
               ''updatedAt'' \<mapsto> S (JStr (toISOString env (date_calls s1))),
               ''status'' \<mapsto> S (JStr ''updated'')))"
    by (auto simp add: frame)
  show ?thesis
    unfolding tbl it sum.case ko(2)
    by (rule put_item_frame[OF ko(1)]) (use get_item_Some_id[OF ko(1)] in simp_all)
qed

lemma dispatch_updateStatus_frame:
  assumes parsed: "parse_event env m = Inr (body, user, JStr ''updateStatus'')"
  shows "rel_option
             (\<lambda>new old. \<forall>a. a \<notin> {''status'', ''updatedAt''} \<longrightarrow> new a = old a)
             (get_item (table (snd (handleUserEvent env m s))) k') (get_item (table s) k')"
proof (cases "table (snd (handleUserEvent env m s)) = table s")
  case True
  then show ?thesis by (simp add: option.rel_refl)
next
  case False
  define s1 where "s1 = snd (create_params env user s)"
  have frame: "table s1 = table s" "dynamo_sent s1 = dynamo_sent s" "date_calls s1 = date_calls s + 2"
    by (simp_all add: s1_def create_params_frame)
  note tbl = dispatch_updateStatus[OF parsed, of s, unfolded s1_def[symmetric]]
  from False obtain it where it: "fst (create_params env user s) = Inr it"
    using tbl by (cases "fst (create_params env user s)") auto
  with False tbl have "table (snd (handleUserEvent_updateStatus env user s1)) \<noteq> table s1"
    by (simp add: frame)
  with updateStatus_table_cases[of env user s1] obtain k old where
    ko: "get_item (table s) k = Some old"
    "table (snd (handleUserEvent_updateStatus env user s1)) =
        put_item (table s) k
          (old(''status'' \<mapsto> S (js_or (js_get user ''status'') (JStr [])),
               ''updatedAt'' \<mapsto> S (JStr (toISOString env (date_calls s1)))))"
    by (auto simp add: frame)
  show ?thesis
    unfolding tbl it sum.case ko(2)
    by (rule put_item_frame[OF ko(1)]) (use get_item_Some_id[OF ko(1)] in simp_all)
qed

text \<open>Facts about the concrete worlds.\<close>

lemma abc_record_id: "abc_record ''id'' = Some (S (JStr ''abc''))"
  by (simp add: abc_record_def)

lemma abc_state_lookup: "get_item (table abc_state) (S (JStr ''abc'')) = Some abc_record"
  by (simp add: abc_state_def empty_state_def get_item_def abc_record_id)

lemma parse_jane_update:
  "parse_event quiet_world (Message (Some ''jane-update'') (Some ''h''))
     = Inr (jane_update, JObj [(''id'', JStr ''abc''), (''firstName'', JStr ''Jane'')], JStr ''update'')"
  by (simp add: parse_event_def quiet_world_def parse_fixture_def jane_update_def js_get_checked_def)

lemma parse_abc_updateStatus:
  "parse_event quiet_world (Message (Some ''abc-updateStatus'') (Some ''h''))
     = Inr (abc_updateStatus, JObj [(''id'', JStr ''abc'')], JStr ''updateStatus'')"
  by (simp add: parse_event_def quiet_world_def parse_fixture_def abc_updateStatus_def js_get_checked_def)

lemma create_params_strings:
  "\<exists>it. fst (create_params quiet_world (JObj [(''id'', JStr ''abc''), (''firstName'', JStr ''Jane'')]) abc_state) = Inr it"
  "\<exists>it. fst (create_params quiet_world (JObj [(''id'', JStr ''abc'')]) abc_state) = Inr it"
  by (simp_all add: create_params_def call_uuidv4_def new_Date_toISOString_def js_or_def convertToAttr_def)

text \<open>
  C5.  An \<^verbatim>\<open>update\<close> event changes nothing but the attributes
  \<^verbatim>\<open>firstName\<close>, \<^verbatim>\<open>lastName\<close>, \<^verbatim>\<open>dob\<close>, \<^verbatim>\<open>updatedAt\<close> and
  \<^verbatim>\<open>status\<close> of a stored record: for every key, the record under it exists
  afterwards exactly when it existed before, and agrees with its old value on every
  other attribute (\<^verbatim>\<open>email\<close> and \<^verbatim>\<open>createdAt\<close> among them).  And when the
  write goes through (the id is truthy and names a stored record, the marshalling of
  lines 100 to 114 did not throw, the store has no fault, and the three names are
  strings or falsy), the record is its old value with the five attributes overwritten:
  the three names by the payload's value or the empty string, \<^verbatim>\<open>updatedAt\<close> by the
  clock reading of line 136, \<^verbatim>\<open>status\<close> by the constant \<^verbatim>\<open>updated\<close>.
\<close>

theorem update_touches_exactly_five_fields:
  assumes parsed: "parse_event env m = Inr (body, user, JStr ''update'')"
  shows "(\<forall>k'. rel_option
             (\<lambda>new old. \<forall>a. a \<notin> {''firstName'', ''lastName'', ''dob'', ''updatedAt'', ''status''}
                            \<longrightarrow> new a = old a)
             (get_item (table (snd (handleUserEvent env m s))) k') (get_item (table s) k'))
     \<and> (\<forall>k old. truthy (js_get user ''id'')
           \<and> (\<exists>it. fst (create_params env user s) = Inr it)
           \<and> convertToAttr env (js_get user ''id'') = Inr k
           \<and> get_item (table s) k = Some old
           \<and> dynamo_fault env (length (dynamo_sent s)) = None
           \<and> wire_ok (S (js_or (js_get user ''firstName'') (JStr [])))
           \<and> wire_ok (S (js_or (js_get user ''lastName'') (JStr [])))
           \<and> wire_ok (S (js_or (js_get user ''dob'') (JStr [])))
         \<longrightarrow> get_item (table (snd (handleUserEvent env m s))) k =
               Some (old(''firstName'' \<mapsto> S (js_or (js_get user ''firstName'') (JStr [])),
                         ''lastName'' \<mapsto> S (js_or (js_get user ''lastName'') (JStr [])),
                         ''dob'' \<mapsto> S (js_or (js_get user ''dob'') (JStr [])),
                         ''updatedAt'' \<mapsto> S (JStr (toISOString env (date_calls s + 2))),
                         ''status'' \<mapsto> S (JStr ''updated''))))"
  using dispatch_update_frame[OF parsed] dispatch_update_success[OF parsed]
  by blast

theorem update_touches_exactly_five_fields_witness:
  "get_item (table (snd (handleUserEvent quiet_world (Message (Some ''jane-update'') (Some ''h''))
                          abc_state))) (S (JStr ''abc''))
     = Some (abc_record(''firstName'' \<mapsto> S (JStr ''Jane''), ''lastName'' \<mapsto> S (JStr []),
                        ''dob'' \<mapsto> S (JStr []),
                        ''updatedAt'' \<mapsto> S (JStr ''2024-01-01T00:00:00.002Z''),
                        ''status'' \<mapsto> S (JStr ''updated'')))
   \<and> rel_option (\<lambda>new old. new ''email'' = old ''email'' \<and> new ''createdAt'' = old ''createdAt'')
        (get_item (table (snd (handleUserEvent quiet_world (Message (Some ''jane-update'') (Some ''h''))
                                 abc_state))) (S (JStr ''abc'')))
        (get_item (table abc_state) (S (JStr ''abc'')))"
proof -
  note t = update_touches_exactly_five_fields[OF parse_jane_update, of abc_state]
  have a: "get_item (table (snd (handleUserEvent quiet_world (Message (Some ''jane-update'') (Some ''h''))
                          abc_state))) (S (JStr ''abc''))
     = Some (abc_record(''firstName'' \<mapsto> S (JStr ''Jane''), ''lastName'' \<mapsto> S (JStr []),
                        ''dob'' \<mapsto> S (JStr []),
                        ''updatedAt'' \<mapsto> S (JStr ''2024-01-01T00:00:00.002Z''),
                        ''status'' \<mapsto> S (JStr ''updated'')))"
    using t[THEN conjunct2, rule_format, of "S (JStr ''abc'')" abc_record]
      abc_state_lookup create_params_strings(1)
    by (simp add: convertToAttr_def js_or_def wire_ok_def quiet_world_def abc_state_def
        empty_state_def)
  have b: "rel_option (\<lambda>new old. new ''email'' = old ''email'' \<and> new ''createdAt'' = old ''createdAt'')
        (get_item (table (snd (handleUserEvent quiet_world (Message (Some ''jane-update'') (Some ''h''))
                                 abc_state))) (S (JStr ''abc'')))
        (get_item (table abc_state) (S (JStr ''abc'')))"
    by (rule option.rel_mono_strong[OF t[THEN conjunct1, rule_format, of "S (JStr ''abc'')"]]) simp
  show ?thesis using a b by blast
qed

text \<open>
  C6.  An \<^verbatim>\<open>updateStatus\<close> event changes nothing but the attributes
  \<^verbatim>\<open>status\<close> and \<^verbatim>\<open>updatedAt\<close> of a stored record; \<^verbatim>\<open>firstName\<close>,
  \<^verbatim>\<open>lastName\<close>, \<^verbatim>\<open>dob\<close>, \<^verbatim>\<open>email\<close> and \<^verbatim>\<open>createdAt\<close> keep their
  stored values.  When the write goes through, the record is its old value with
  \<^verbatim>\<open>status\<close> set to the payload's status (or the empty string) and
  \<^verbatim>\<open>updatedAt\<close> to the clock reading of line 177.
\<close>

theorem updateStatus_touches_only_status_and_updatedAt:
  assumes parsed: "parse_event env m = Inr (body, user, JStr ''updateStatus'')"
  shows "(\<forall>k'. rel_option
             (\<lambda>new old. \<forall>a. a \<notin> {''status'', ''updatedAt''} \<longrightarrow> new a = old a)
             (get_item (table (snd (handleUserEvent env m s))) k') (get_item (table s) k'))
     \<and> (\<forall>k old. truthy (js_get user ''id'')
           \<and> (\<exists>it. fst (create_params env user s) = Inr it)
           \<and> convertToAttr env (js_get user ''id'') = Inr k
           \<and> get_item (table s) k = Some old
           \<and> dynamo_fault env (length (dynamo_sent s)) = None
           \<and> wire_ok (S (js_or (js_get user ''status'') (JStr [])))
         \<longrightarrow> get_item (table (snd (handleUserEvent env m s))) k =
               Some (old(''status'' \<mapsto> S (js_or (js_get user ''status'') (JStr [])),
                         ''updatedAt'' \<mapsto> S (JStr (toISOString env (date_calls s + 2))))))"
  using dispatch_updateStatus_frame[OF parsed] dispatch_updateStatus_success[OF parsed]
  by blast


theorem updateStatus_touches_only_status_and_updatedAt_witness:
  "get_item (table (snd (handleUserEvent quiet_world (Message (Some ''abc-updateStatus'') (Some ''h''))
                          abc_state))) (S (JStr ''abc''))
     = Some (abc_record(''status'' \<mapsto> S (JStr []),
                        ''updatedAt'' \<mapsto> S (JStr ''2024-01-01T00:00:00.002Z'')))
   \<and> rel_option (\<lambda>new old. new ''firstName'' = old ''firstName'' \<and> new ''lastName'' = old ''lastName''
          \<and> new ''dob'' = old ''dob'' \<and> new ''email'' = old ''email''
          \<and> new ''createdAt'' = old ''createdAt'')
        (get_item (table (snd (handleUserEvent quiet_world (Message (Some ''abc-updateStatus'') (Some ''h''))
                                 abc_state))) (S (JStr ''abc'')))
        (get_item (table abc_state) (S (JStr ''abc'')))"
proof -
  note t = updateStatus_touches_only_status_and_updatedAt[OF parse_abc_updateStatus, of abc_state]
  have a: "get_item (table (snd (handleUserEvent quiet_world (Message (Some ''abc-updateStatus'') (Some ''h''))
                          abc_state))) (S (JStr ''abc''))
     = Some (abc_record(''status'' \<mapsto> S (JStr []),
                        ''updatedAt'' \<mapsto> S (JStr ''2024-01-01T00:00:00.002Z'')))"
    using t[THEN conjunct2, rule_format, of "S (JStr ''abc'')" abc_record]
      abc_state_lookup create_params_strings(2)
    by (simp add: convertToAttr_def js_or_def wire_ok_def quiet_world_def abc_state_def
        empty_state_def)
  have b: "rel_option (\<lambda>new old. new ''firstName'' = old ''firstName'' \<and> new ''lastName'' = old ''lastName''
          \<and> new ''dob'' = old ''dob'' \<and> new ''email'' = old ''email''
          \<and> new ''createdAt'' = old ''createdAt'')
        (get_item (table (snd (handleUserEvent quiet_world (Message (Some ''abc-updateStatus'') (Some ''h''))
                                 abc_state))) (S (JStr ''abc'')))
        (get_item (table abc_state) (S (JStr ''abc'')))"
    by (rule option.rel_mono_strong[OF t[THEN conjunct1, rule_format, of "S (JStr ''abc'')"]]) simp
  show ?thesis using a b by blast
qed

text \<open>
  C9.  When an \<^verbatim>\<open>update\<close> goes through and the payload's \<^verbatim>\<open>firstName\<close>,
  \<^verbatim>\<open>lastName\<close> or \<^verbatim>\<open>dob\<close> is missing or falsy, the stored record holds the
  empty string for that attribute afterwards, whatever it held before.
\<close>

theorem update_blanks_falsy_names:
  assumes parsed: "parse_event env m = Inr (body, user, JStr ''update'')"
    and f: "f = ''firstName'' \<or> f = ''lastName'' \<or> f = ''dob''"
    and falsy: "\<not> truthy (js_get user f)"
    and "truthy (js_get user ''id'')" "fst (create_params env user s) = Inr it"
    and "convertToAttr env (js_get user ''id'') = Inr k"
    and "get_item (table s) k = Some old"
    and "dynamo_fault env (length (dynamo_sent s)) = None"
    and "wire_ok (S (js_or (js_get user ''firstName'') (JStr [])))"
    and "wire_ok (S (js_or (js_get user ''lastName'') (JStr [])))"
    and "wire_ok (S (js_or (js_get user ''dob'') (JStr [])))"
  shows "\<exists>new. get_item (table (snd (handleUserEvent env m s))) k = Some new
           \<and> new f = Some (S (JStr []))"
  using f falsy unfolding dispatch_update_success[OF assms(1,4-11)]
  by (auto simp add: js_or_def)

theorem update_blanks_falsy_names_witness:
  "\<exists>new. get_item (table (snd (handleUserEvent quiet_world (Message (Some ''jane-update'') (Some ''h''))
                                 abc_state))) (S (JStr ''abc'')) = Some new
      \<and> new ''lastName'' = Some (S (JStr [])) \<and> abc_record ''lastName'' = Some (S (JStr ''Roe''))"
proof -
  obtain it where it: "fst (create_params quiet_world
        (JObj [(''id'', JStr ''abc''), (''firstName'', JStr ''Jane'')]) abc_state) = Inr it"
    using create_params_strings(1) by blast
  have "\<exists>new. get_item (table (snd (handleUserEvent quiet_world (Message (Some ''jane-update'') (Some ''h''))
                                 abc_state))) (S (JStr ''abc'')) = Some new
      \<and> new ''lastName'' = Some (S (JStr []))"
    by (rule update_blanks_falsy_names[OF parse_jane_update _ _ _ it _ abc_state_lookup])
       (simp_all add: convertToAttr_def js_or_def wire_ok_def quiet_world_def abc_state_def
        empty_state_def)
  then show ?thesis by (simp add: abc_record_def)
qed

section \<open>What a create writes\<close>

lemma marshall_dom: "marshall env r kvs = Inr it \<Longrightarrow> dom it \<subseteq> fst ` set kvs"
proof (induction kvs arbitrary: it)
  case Nil
  then show ?case by simp
next
  case (Cons kv kvs)
  obtain k v where kv: "kv = (k, v)" by (cases kv)
  show ?case
  proof (cases "v = JUndefined \<and> r")
    case True
    with Cons kv show ?thesis by auto
  next
    case False
    with Cons.prems kv obtain a m where
      "convertToAttr env v = Inr a" "marshall env r kvs = Inr m" "it = m(k \<mapsto> a)"
      by (auto split: sum.splits)
    with Cons.IH[of m] kv show ?thesis by (fastforce simp: dom_def split: if_splits)
  qed
qed

lemma marshall_lookup:
  "marshall env r kvs = Inr it \<Longrightarrow> distinct (map fst kvs) \<Longrightarrow> (k, v) \<in> set kvs \<Longrightarrow>
   (if v = JUndefined \<and> r then it k = None
    else \<exists>a. convertToAttr env v = Inr a \<and> it k = Some a)"
proof (induction kvs arbitrary: it)
  case Nil
  then show ?case by simp
next
  case (Cons kv kvs)
  obtain k0 v0 where kv: "kv = (k0, v0)" by (cases kv)
  have notin: "k0 \<notin> fst ` set kvs" using Cons.prems(2) kv by simp
  show ?case
  proof (cases "v0 = JUndefined \<and> r")
    case True
    then have rest: "marshall env r kvs = Inr it" using Cons.prems(1) kv by simp
    show ?thesis
    proof (cases "(k, v) = (k0, v0)")
      case True
      with \<open>v0 = JUndefined \<and> r\<close> marshall_dom[OF rest] notin show ?thesis by auto
    next
      case False
      with Cons.prems kv have "(k, v) \<in> set kvs" by auto
      with Cons.IH[OF rest] Cons.prems(2) show ?thesis by simp
    qed
  next
    case False
    with Cons.prems(1) kv obtain a m where
      m: "convertToAttr env v0 = Inr a" "marshall env r kvs = Inr m" "it = m(k0 \<mapsto> a)"
      by (auto split: sum.splits)
    show ?thesis
    proof (cases "(k, v) = (k0, v0)")
      case True
      with False m show ?thesis by auto
    next
      case False
      with Cons.prems kv have in_rest: "(k, v) \<in> set kvs" by auto
      then have "k \<noteq> k0" using notin by force
      with Cons.IH[OF m(2) _ in_rest] Cons.prems(2) m(3) show ?thesis by simp
    qed
  qed
qed

lemma dispatch_create:
  assumes parsed: "parse_event env m = Inr (body, user, JStr ''create'')"
    and it: "fst (create_params env user s) = Inr it"
  shows "dynamo_sent (snd (handleUserEvent env m s)) = dynamo_sent s @ [PutItemCommand (tableName env) it]"
    and "dynamo_fault env (length (dynamo_sent s)) = None \<Longrightarrow> it ''id'' = Some k \<Longrightarrow>
           table (snd (handleUserEvent env m s)) = put_item (table s) k it"
proof -
  define s1 where "s1 = snd (create_params env user s)"
  have frame: "table s1 = table s" "dynamo_sent s1 = dynamo_sent s"
    by (simp_all add: s1_def create_params_frame)
  have tr: "handleUserEvent_try env m s = handleUserEvent_create env body it s1"
    by (simp add: handleUserEvent_parsed[OF parsed] it s1_def)
  have h: "snd (handleUserEvent env m s) = snd (handleUserEvent_create env body it s1)"
    using create_branch(1)[of env body it s1]
    by (simp add: handleUserEvent_def tr case_prod_beta)
  show "dynamo_sent (snd (handleUserEvent env m s)) = dynamo_sent s @ [PutItemCommand (tableName env) it]"
    by (simp add: h create_branch frame)
  show "table (snd (handleUserEvent env m s)) = put_item (table s) k it"
    if "dynamo_fault env (length (dynamo_sent s)) = None" "it ''id'' = Some k"
  proof -
    have "store_apply (PutItemCommand (tableName env) it) (table s1) = Inr (DynamoOutput None, put_item (table s) k it)"
      using that by (simp add: frame)
    from send_ok[OF _ this] that show ?thesis by (simp add: h create_branch frame)
  qed
qed


lemma create_params_item:
  assumes it: "fst (create_params env user s) = Inr it"
  shows "it ''id'' = Some (S (JStr (uuidv4 env (uuid_calls s))))"
    and "\<exists>a. convertToAttr env (js_or (js_get user ''status'') (JStr ''active'')) = Inr a
            \<and> it ''status'' = Some a"
    and "\<not> truthy (js_get user ''status'') \<Longrightarrow> it ''status'' = Some (S (JStr ''active''))"
    and "it ''createdAt'' = Some (S (JStr (toISOString env (date_calls s))))"
    and "it ''updatedAt'' = Some (S (JStr (toISOString env (date_calls s + 1))))"
    and "f \<in> {''firstName'', ''lastName'', ''email'', ''dob''} \<Longrightarrow>
           (if js_get user f = JUndefined then it f = None
            else \<exists>a. convertToAttr env (js_get user f) = Inr a \<and> it f = Some a)"
    and "dom it \<subseteq> {''id'', ''firstName'', ''lastName'', ''email'', ''dob'', ''status'',
                   ''createdAt'', ''updatedAt''}"
proof -
  define obj where "obj =
            [(''id'', JStr (uuidv4 env (uuid_calls s))),
             (''firstName'', js_get user ''firstName''),
             (''lastName'', js_get user ''lastName''),
             (''email'', js_get user ''email''),
             (''dob'', js_get user ''dob''),
             (''status'', js_or (js_get user ''status'') (JStr ''active'')),
             (''createdAt'', JStr (toISOString env (date_calls s))),
             (''updatedAt'', JStr (toISOString env (date_calls s + 1)))]"
  have mar: "marshall env True obj = Inr it"
    using it by (simp add: create_params_eq obj_def del: marshall.simps)
  have dist: "distinct (map fst obj)" by (simp add: obj_def)
  note look = marshall_lookup[OF mar dist]
  show "it ''id'' = Some (S (JStr (uuidv4 env (uuid_calls s))))"
    using look[of "''id''" "JStr (uuidv4 env (uuid_calls s))"]
    by (simp add: obj_def convertToAttr_def)
  show st: "\<exists>a. convertToAttr env (js_or (js_get user ''status'') (JStr ''active'')) = Inr a
            \<and> it ''status'' = Some a"
    using look[of "''status''" "js_or (js_get user ''status'') (JStr ''active'')"]
    by (auto simp add: obj_def js_or_def split: if_splits)
  show "it ''status'' = Some (S (JStr ''active''))" if "\<not> truthy (js_get user ''status'')"
    using st that by (simp add: js_or_def convertToAttr_def)
  show "it ''createdAt'' = Some (S (JStr (toISOString env (date_calls s))))"
    using look[of "''createdAt''" "JStr (toISOString env (date_calls s))"]
    by (simp add: obj_def convertToAttr_def)
  show "it ''updatedAt'' = Some (S (JStr (toISOString env (date_calls s + 1))))"
    using look[of "''updatedAt''" "JStr (toISOString env (date_calls s + 1))"]
    by (simp add: obj_def convertToAttr_def)
  show "if js_get user f = JUndefined then it f = None
           else \<exists>a. convertToAttr env (js_get user f) = Inr a \<and> it f = Some a"
    if "f \<in> {''firstName'', ''lastName'', ''email'', ''dob''}"
    using look[of f "js_get user f"] that
    by (auto simp add: obj_def)
  show "dom it \<subseteq> {''id'', ''firstName'', ''lastName'', ''email'', ''dob'', ''status'',
                   ''createdAt'', ''updatedAt''}"
    using marshall_dom[OF mar] by (simp add: obj_def)
qed

lemma dispatch_create_stored:
  assumes parsed: "parse_event env m = Inr (body, user, JStr ''create'')"
    and it: "fst (create_params env user s) = Inr it"
    and ok: "dynamo_fault env (length (dynamo_sent s)) = None"
  shows "get_item (table (snd (handleUserEvent env m s))) (S (JStr (uuidv4 env (uuid_calls s))))
             = Some it"
  using dispatch_create(2)[OF parsed it ok create_params_item(1)[OF it]] create_params_item(1)[OF it]
  by (simp add: get_item_put_item_same)

lemma parse_john_create:
  "parse_event quiet_world (Message (Some ''john-create'') (Some ''h''))
     = Inr (john_create,
            JObj [(''firstName'', JStr ''John''), (''lastName'', JStr ''Doe''),
                  (''email'', JStr ''john@x.com''), (''dob'', JStr ''2000-01-01'')],
            JStr ''create'')"
  by (simp add: parse_event_def quiet_world_def parse_fixture_def john_create_def js_get_checked_def)

lemma parse_blank_status_create:
  "parse_event quiet_world (Message (Some ''blank-status-create'') (Some ''h''))
     = Inr (blank_status_create,
            JObj [(''id'', JStr ''abc''), (''email'', JStr ''john@x.com''), (''status'', JStr [])],
            JStr ''create'')"
  by (simp add: parse_event_def quiet_world_def parse_fixture_def blank_status_create_def
      js_get_checked_def)

lemma create_params_fixtures:
  "\<exists>it. fst (create_params quiet_world
            (JObj [(''firstName'', JStr ''John''), (''lastName'', JStr ''Doe''),
                   (''email'', JStr ''john@x.com''), (''dob'', JStr ''2000-01-01'')]) empty_state) = Inr it"
  "\<exists>it. fst (create_params quiet_world
            (JObj [(''id'', JStr ''abc''), (''email'', JStr ''john@x.com''), (''status'', JStr [])])
            abc_state) = Inr it"
  by (simp_all add: create_params_def call_uuidv4_def new_Date_toISOString_def js_or_def convertToAttr_def)

text \<open>
  C4, as the spec states it, has the record of a \<^verbatim>\<open>create\<close> carry
  \<^verbatim>\<open>createdAt\<close> equal to \<^verbatim>\<open>updatedAt\<close>, and the payload's status unless
  that is absent.  The code reads the clock twice (lines 108 and 109), so the two
  timestamps differ whenever the clock moves between the readings: here by a
  millisecond.  And line 107 replaces every falsy status, so a payload whose status is
  the empty string is written with the status \<^verbatim>\<open>active\<close>.
\<close>

theorem create_record_counterexample:
  "(\<exists>it. dynamo_sent (snd (handleUserEvent quiet_world (Message (Some ''john-create'') (Some ''h''))
                             empty_state)) = [PutItemCommand ''users'' it]
      \<and> it ''createdAt'' = Some (S (JStr ''2024-01-01T00:00:00.000Z''))
      \<and> it ''updatedAt'' = Some (S (JStr ''2024-01-01T00:00:00.001Z''))
      \<and> it ''createdAt'' \<noteq> it ''updatedAt'')
   \<and> (\<exists>it. js_get (js_get blank_status_create ''user'') ''status'' = JStr []
      \<and> dynamo_sent (snd (handleUserEvent quiet_world
              (Message (Some ''blank-status-create'') (Some ''h'')) empty_state))
           = [PutItemCommand ''users'' it]
      \<and> it ''status'' = Some (S (JStr ''active'')))"
proof -
  obtain it where it: "fst (create_params quiet_world
            (JObj [(''firstName'', JStr ''John''), (''lastName'', JStr ''Doe''),
                   (''email'', JStr ''john@x.com''), (''dob'', JStr ''2000-01-01'')]) empty_state) = Inr it"
    using create_params_fixtures(1) by blast
  have "dynamo_sent (snd (handleUserEvent quiet_world (Message (Some ''john-create'') (Some ''h''))
                             empty_state)) = [PutItemCommand ''users'' it]"
    using dispatch_create(1)[OF parse_john_create it]
    by (simp add: quiet_world_def empty_state_def)
  moreover have "it ''createdAt'' = Some (S (JStr ''2024-01-01T00:00:00.000Z''))"
    using create_params_item(4)[OF it] by (simp add: quiet_world_def empty_state_def)
  moreover have "it ''updatedAt'' = Some (S (JStr ''2024-01-01T00:00:00.001Z''))"
    using create_params_item(5)[OF it] by (simp add: quiet_world_def empty_state_def)
  ultimately have a: "\<exists>it. dynamo_sent (snd (handleUserEvent quiet_world (Message (Some ''john-create'') (Some ''h''))
                             empty_state)) = [PutItemCommand ''users'' it]
      \<and> it ''createdAt'' = Some (S (JStr ''2024-01-01T00:00:00.000Z''))
      \<and> it ''updatedAt'' = Some (S (JStr ''2024-01-01T00:00:00.001Z''))
      \<and> it ''createdAt'' \<noteq> it ''updatedAt''" by auto
  obtain it2 where it2: "fst (create_params quiet_world
            (JObj [(''id'', JStr ''abc''), (''email'', JStr ''john@x.com''), (''status'', JStr [])])
            empty_state) = Inr it2"
    by (simp add: create_params_def call_uuidv4_def new_Date_toISOString_def js_or_def convertToAttr_def)
  have "dynamo_sent (snd (handleUserEvent quiet_world
              (Message (Some ''blank-status-create'') (Some ''h'')) empty_state))
           = [PutItemCommand ''users'' it2]"
    using dispatch_create(1)[OF parse_blank_status_create it2]
    by (simp add: quiet_world_def empty_state_def)
  moreover have "it2 ''status'' = Some (S (JStr ''active''))"
    using create_params_item(3)[OF it2] by simp
  moreover have "js_get (js_get blank_status_create ''user'') ''status'' = JStr []"
    by (simp add: blank_status_create_def)
  ultimately have b: "\<exists>it. js_get (js_get blank_status_create ''user'') ''status'' = JStr []
      \<and> dynamo_sent (snd (handleUserEvent quiet_world
              (Message (Some ''blank-status-create'') (Some ''h'')) empty_state))
           = [PutItemCommand ''users'' it]
      \<and> it ''status'' = Some (S (JStr ''active''))" by blast
  show ?thesis using a b by blast
qed

text \<open>
  C4, amended.  For a \<^verbatim>\<open>create\<close> event whose marshalling succeeds, the request
  sent is a put of the marshalled record, and that record has: as \<^verbatim>\<open>id\<close> the next
  identifier of the generator, whatever the payload holds; as \<^verbatim>\<open>status\<close> the
  payload's status, or \<^verbatim>\<open>active\<close> when that is missing or falsy; as
  \<^verbatim>\<open>createdAt\<close> the first and as \<^verbatim>\<open>updatedAt\<close> the second of two consecutive
  readings of the clock; each of \<^verbatim>\<open>firstName\<close>, \<^verbatim>\<open>lastName\<close>, \<^verbatim>\<open>email\<close>
  and \<^verbatim>\<open>dob\<close> as the payload has it, and no such attribute at all when the payload
  has none; and no other attribute.  When the store has no fault the record is stored
  under the generated id.
\<close>

theorem create_writes_generated_record:
  assumes parsed: "parse_event env m = Inr (body, user, JStr ''create'')"
    and it: "fst (create_params env user s) = Inr it"
  shows "dynamo_sent (snd (handleUserEvent env m s)) = dynamo_sent s @ [PutItemCommand (tableName env) it]
     \<and> it ''id'' = Some (S (JStr (uuidv4 env (uuid_calls s))))
     \<and> (\<exists>a. convertToAttr env (js_or (js_get user ''status'') (JStr ''active'')) = Inr a
            \<and> it ''status'' = Some a)
     \<and> (\<not> truthy (js_get user ''status'') \<longrightarrow> it ''status'' = Some (S (JStr ''active'')))
     \<and> it ''createdAt'' = Some (S (JStr (toISOString env (date_calls s))))
     \<and> it ''updatedAt'' = Some (S (JStr (toISOString env (date_calls s + 1))))
     \<and> (\<forall>f \<in> {''firstName'', ''lastName'', ''email'', ''dob''}.
           if js_get user f = JUndefined then it f = None
           else \<exists>a. convertToAttr env (js_get user f) = Inr a \<and> it f = Some a)
     \<and> dom it \<subseteq> {''id'', ''firstName'', ''lastName'', ''email'', ''dob'', ''status'',
                   ''createdAt'', ''updatedAt''}
     \<and> (dynamo_fault env (length (dynamo_sent s)) = None \<longrightarrow>
           get_item (table (snd (handleUserEvent env m s))) (S (JStr (uuidv4 env (uuid_calls s))))
             = Some it)"
  using dispatch_create(1)[OF parsed it] create_params_item[OF it]
    dispatch_create_stored[OF parsed it]
  by blast

theorem create_writes_generated_record_witness:
  "\<exists>it. dynamo_sent (snd (handleUserEvent quiet_world (Message (Some ''john-create'') (Some ''h''))
                             empty_state)) = [PutItemCommand ''users'' it]
      \<and> it ''id'' = Some (S (JStr ''uuid-0''))
      \<and> it ''firstName'' = Some (S (JStr ''John''))
      \<and> it ''status'' = Some (S (JStr ''active''))
      \<and> it ''createdAt'' = Some (S (JStr ''2024-01-01T00:00:00.000Z''))
      \<and> it ''updatedAt'' = Some (S (JStr ''2024-01-01T00:00:00.001Z''))
      \<and> get_item (table (snd (handleUserEvent quiet_world (Message (Some ''john-create'') (Some ''h''))
                                empty_state))) (S (JStr ''uuid-0'')) = Some it"
proof -
  obtain it where it: "fst (create_params quiet_world
            (JObj [(''firstName'', JStr ''John''), (''lastName'', JStr ''Doe''),
                   (''email'', JStr ''john@x.com''), (''dob'', JStr ''2000-01-01'')]) empty_state) = Inr it"
    using create_params_fixtures(1) by blast
  from create_writes_generated_record[OF parse_john_create it]
  have "dynamo_sent (snd (handleUserEvent quiet_world (Message (Some ''john-create'') (Some ''h''))
                             empty_state)) = [PutItemCommand ''users'' it]
      \<and> it ''id'' = Some (S (JStr ''uuid-0''))
      \<and> it ''firstName'' = Some (S (JStr ''John''))
      \<and> it ''status'' = Some (S (JStr ''active''))
      \<and> it ''createdAt'' = Some (S (JStr ''2024-01-01T00:00:00.000Z''))
      \<and> it ''updatedAt'' = Some (S (JStr ''2024-01-01T00:00:00.001Z''))
      \<and> get_item (table (snd (handleUserEvent quiet_world (Message (Some ''john-create'') (Some ''h''))
                                empty_state))) (S (JStr ''uuid-0'')) = Some it"
    by (simp add: quiet_world_def empty_state_def convertToAttr_def)
  then show ?thesis by blast
qed

text \<open>
  C10.  The empty status is treated differently by the two paths.  A \<^verbatim>\<open>create\<close>
  whose status is the empty string writes the status \<^verbatim>\<open>active\<close>, and the whole
  record it builds is the one it builds when the status is absent.  An
  \<^verbatim>\<open>updateStatus\<close> whose status is absent or the empty string stores the empty
  string as the status of the record.
\<close>

theorem empty_status_asymmetry:
  "(parse_event env m = Inr (body, user, JStr ''create'')
      \<and> fst (create_params env user s) = Inr it
      \<and> (js_get user ''status'' = JStr [] \<or> js_get user ''status'' = JUndefined)
    \<longrightarrow> dynamo_sent (snd (handleUserEvent env m s))
           = dynamo_sent s @ [PutItemCommand (tableName env) it]
        \<and> it ''status'' = Some (S (JStr ''active''))
        \<and> (dynamo_fault env (length (dynamo_sent s)) = None \<longrightarrow>
             get_item (table (snd (handleUserEvent env m s)))
               (S (JStr (uuidv4 env (uuid_calls s)))) = Some it))
   \<and> (\<forall>u1 u2. js_get u1 ''status'' = JStr [] \<and> js_get u2 ''status'' = JUndefined
         \<and> js_get u1 ''firstName'' = js_get u2 ''firstName''
         \<and> js_get u1 ''lastName'' = js_get u2 ''lastName''
         \<and> js_get u1 ''email'' = js_get u2 ''email''
         \<and> js_get u1 ''dob'' = js_get u2 ''dob''
       \<longrightarrow> create_params env u1 s = create_params env u2 s)
   \<and> (parse_event env m = Inr (body, user, JStr ''updateStatus'')
      \<and> (js_get user ''status'' = JStr [] \<or> js_get user ''status'' = JUndefined)
      \<and> truthy (js_get user ''id'')
      \<and> fst (create_params env user s) = Inr it
      \<and> convertToAttr env (js_get user ''id'') = Inr k
      \<and> get_item (table s) k = Some old
      \<and> dynamo_fault env (length (dynamo_sent s)) = None
    \<longrightarrow> get_item (table (snd (handleUserEvent env m s))) k =
          Some (old(''status'' \<mapsto> S (JStr []),
                    ''updatedAt'' \<mapsto> S (JStr (toISOString env (date_calls s + 2))))))"
proof -
  have a: "dynamo_sent (snd (handleUserEvent env m s))
           = dynamo_sent s @ [PutItemCommand (tableName env) it]
        \<and> it ''status'' = Some (S (JStr ''active''))
        \<and> (dynamo_fault env (length (dynamo_sent s)) = None \<longrightarrow>
             get_item (table (snd (handleUserEvent env m s)))
               (S (JStr (uuidv4 env (uuid_calls s)))) = Some it)"
    if h: "parse_event env m = Inr (body, user, JStr ''create'')
      \<and> fst (create_params env user s) = Inr it
      \<and> (js_get user ''status'' = JStr [] \<or> js_get user ''status'' = JUndefined)"
  proof -
    from h have p: "parse_event env m = Inr (body, user, JStr ''create'')"
      and i: "fst (create_params env user s) = Inr it"
      and f: "\<not> truthy (js_get user ''status'')" by auto
    show ?thesis
      using dispatch_create(1)[OF p i] create_params_item(3)[OF i f] dispatch_create_stored[OF p i]
      by blast
  qed
  have b: "create_params env u1 s = create_params env u2 s"
    if "js_get u1 ''status'' = JStr [] \<and> js_get u2 ''status'' = JUndefined
         \<and> js_get u1 ''firstName'' = js_get u2 ''firstName''
         \<and> js_get u1 ''lastName'' = js_get u2 ''lastName''
         \<and> js_get u1 ''email'' = js_get u2 ''email''
         \<and> js_get u1 ''dob'' = js_get u2 ''dob''" for u1 u2
    using that by (simp add: create_params_eq js_or_def del: marshall.simps)
  have c: "get_item (table (snd (handleUserEvent env m s))) k =
          Some (old(''status'' \<mapsto> S (JStr []),
                    ''updatedAt'' \<mapsto> S (JStr (toISOString env (date_calls s + 2)))))"
    if h: "parse_event env m = Inr (body, user, JStr ''updateStatus'')
      \<and> (js_get user ''status'' = JStr [] \<or> js_get user ''status'' = JUndefined)
      \<and> truthy (js_get user ''id'')
      \<and> fst (create_params env user s) = Inr it
      \<and> convertToAttr env (js_get user ''id'') = Inr k
      \<and> get_item (table s) k = Some old
      \<and> dynamo_fault env (length (dynamo_sent s)) = None"
  proof -
    from h have st: "js_or (js_get user ''status'') (JStr []) = JStr []"
      by (auto simp add: js_or_def)
    have w: "wire_ok (S (js_or (js_get user ''status'') (JStr [])))"
      by (simp add: st wire_ok_def)
    from h dispatch_updateStatus_success[of env m body user s it k old, OF _ _ _ _ _ _ w]
    show ?thesis by (simp add: st)
  qed
  show ?thesis using a b c by blast
qed

theorem empty_status_asymmetry_witness:
  "(\<exists>it. dynamo_sent (snd (handleUserEvent quiet_world
              (Message (Some ''blank-status-create'') (Some ''h'')) abc_state))
           = [PutItemCommand ''users'' it]
        \<and> it ''status'' = Some (S (JStr ''active'')))
   \<and> get_item (table (snd (handleUserEvent quiet_world
              (Message (Some ''abc-updateStatus'') (Some ''h'')) abc_state))) (S (JStr ''abc''))
       = Some (abc_record(''status'' \<mapsto> S (JStr []),
                          ''updatedAt'' \<mapsto> S (JStr ''2024-01-01T00:00:00.002Z'')))"
proof -
  obtain it where it: "fst (create_params quiet_world
            (JObj [(''id'', JStr ''abc''), (''email'', JStr ''john@x.com''), (''status'', JStr [])])
            abc_state) = Inr it"
    using create_params_fixtures(2) by blast
  obtain it2 where it2: "fst (create_params quiet_world (JObj [(''id'', JStr ''abc'')]) abc_state) = Inr it2"
    using create_params_strings(2) by blast
  have a: "dynamo_sent (snd (handleUserEvent quiet_world
              (Message (Some ''blank-status-create'') (Some ''h'')) abc_state))
           = [PutItemCommand ''users'' it]
        \<and> it ''status'' = Some (S (JStr ''active''))"
    using empty_status_asymmetry[of quiet_world "Message (Some ''blank-status-create'') (Some ''h'')"
        blank_status_create
        "JObj [(''id'', JStr ''abc''), (''email'', JStr ''john@x.com''), (''status'', JStr [])]"
        abc_state it] parse_blank_status_create it
    by (simp add: quiet_world_def abc_state_def empty_state_def)
  have b: "get_item (table (snd (handleUserEvent quiet_world
              (Message (Some ''abc-updateStatus'') (Some ''h'')) abc_state))) (S (JStr ''abc''))
       = Some (abc_record(''status'' \<mapsto> S (JStr []),
                          ''updatedAt'' \<mapsto> S (JStr ''2024-01-01T00:00:00.002Z'')))"
    using empty_status_asymmetry[of quiet_world "Message (Some ''abc-updateStatus'') (Some ''h'')"
        abc_updateStatus "JObj [(''id'', JStr ''abc'')]" abc_state it2 "S (JStr ''abc'')" abc_record]
      parse_abc_updateStatus it2 abc_state_lookup
    by (simp add: convertToAttr_def quiet_world_def abc_state_def empty_state_def)
  show ?thesis using a b by blast
qed

section \<open>Properties of the Consume Loop\<close>

lemma process_message_eq:
  "fst (process_message env m s) =
     (case sqs_response env (length (sqs_sent s)) (DeleteMessageCommand (queueUrl env) (ReceiptHandle m)) of
        Inl e \<Rightarrow> Some e | Inr out \<Rightarrow> None)"
  "sqs_sent (snd (process_message env m s)) =
       sqs_sent s @ [DeleteMessageCommand (queueUrl env) (ReceiptHandle m)]"
  "pending (snd (process_message env m s)) = pending s"
  using handleUserEvent_never_throws[of env m "logger_log ''${message.Body}''
                 [case Body m of None \<Rightarrow> JUndefined | Some text \<Rightarrow> JStr text] s"]
      handleUserEvent_queue_frame[of env m "logger_log ''${message.Body}''
                 [case Body m of None \<Rightarrow> JUndefined | Some text \<Rightarrow> JStr text] s"]
  by (simp_all add: process_message_def Let_def case_prod_beta sqsClient_send_def logger_log_def
        split: sum.splits option.splits)

lemma process_messages_step:
  "process_messages env (m # ms) s =
     (case fst (process_message env m s) of
        Some e \<Rightarrow> (Some e, snd (process_message env m s))
      | None \<Rightarrow> process_messages env ms (snd (process_message env m s)))"
  by (simp add: case_prod_beta split: option.splits)

lemma process_messages_None:
  "(fst (process_messages env ms s) = None) = deletes_succeed env (length (sqs_sent s)) ms"
proof (induction ms arbitrary: s)
  case Nil
  show ?case by simp
next
  case (Cons m ms)
  show ?case
  proof (cases "sqs_response env (length (sqs_sent s))
                  (DeleteMessageCommand (queueUrl env) (ReceiptHandle m))")
    case (Inl e)
    then show ?thesis
      by (simp add: process_messages_step process_message_eq del: process_messages.simps)
  next
    case (Inr out)
    then show ?thesis
      using Cons.IH[of "snd (process_message env m s)"]
      by (simp add: process_messages_step process_message_eq del: process_messages.simps)
  qed
qed

lemma process_messages_frame:
  "filter is_receive (sqs_sent (snd (process_messages env ms s))) = filter is_receive (sqs_sent s)
   \<and> pending (snd (process_messages env ms s)) = pending s
   \<and> (\<exists>rest. sqs_sent (snd (process_messages env ms s)) = sqs_sent s @ rest)"
proof (induction ms arbitrary: s)
  case Nil
  show ?case by simp
next
  case (Cons m ms)
  show ?case
  proof (cases "fst (process_message env m s)")
    case None
    then show ?thesis
      using Cons.IH[of "snd (process_message env m s)"]
      by (auto simp add: process_messages_step process_message_eq(2,3) is_receive_def
          simp del: process_messages.simps)
  next
    case (Some e)
    then show ?thesis
      by (simp add: process_messages_step process_message_eq(2,3) is_receive_def
          del: process_messages.simps)
  qed
qed

lemma pollQueue_eq:
  "pollQueue env s =
     (case sqs_response env (length (sqs_sent s)) (ReceiveMessageCommand (queueUrl env) 10 20) of
        Inl error \<Rightarrow>
          setTimeout_pollQueue pollingInterval
            (logger_error ''Error polling SQS queue:'' error
               (s\<lparr>sqs_sent := sqs_sent s @ [ReceiveMessageCommand (queueUrl env) 10 20]\<rparr>))
      | Inr response \<Rightarrow>
          (case Messages response of
             Some (message # rest) \<Rightarrow>
               (case process_messages env (message # rest)
                       (s\<lparr>sqs_sent := sqs_sent s @ [ReceiveMessageCommand (queueUrl env) 10 20]\<rparr>) of
                  (None, s2) \<Rightarrow> call_pollQueue s2
                | (Some error, s2) \<Rightarrow>
                    setTimeout_pollQueue pollingInterval
                      (logger_error ''Error polling SQS queue:'' error s2))
           | _ \<Rightarrow>
               setTimeout_pollQueue pollingInterval
                 (logger_log ''Queue is empty, waiting before next poll...'' []
                    (s\<lparr>sqs_sent := sqs_sent s @ [ReceiveMessageCommand (queueUrl env) 10 20]\<rparr>))))"
  by (simp add: pollQueue_def sqsClient_send_def split: sum.splits)

lemma pollQueue_pending:
  "pending (pollQueue env s) = pending s @
     [case sqs_response env (length (sqs_sent s)) (ReceiveMessageCommand (queueUrl env) 10 20) of
        Inl error \<Rightarrow> After 10000
      | Inr response \<Rightarrow>
          (case Messages response of
             None \<Rightarrow> After 10000
           | Some ms \<Rightarrow>
               if ms \<noteq> [] \<and> deletes_succeed env (length (sqs_sent s) + 1) ms
               then Immediately else After 10000)]"
proof (cases "sqs_response env (length (sqs_sent s)) (ReceiveMessageCommand (queueUrl env) 10 20)")
  case (Inl e)
  then show ?thesis
    by (simp add: pollQueue_eq setTimeout_pollQueue_def logger_error_def pollingInterval_def)
next
  case (Inr response)
  show ?thesis
  proof (cases "Messages response")
    case None
    with Inr show ?thesis
      by (simp add: pollQueue_eq setTimeout_pollQueue_def logger_log_def pollingInterval_def)
  next
    case (Some ms)
    show ?thesis
    proof (cases ms)
      case Nil
      with Inr Some show ?thesis
        by (simp add: pollQueue_eq setTimeout_pollQueue_def logger_log_def pollingInterval_def)
    next
      case (Cons m rest)
      define s1 where "s1 = s\<lparr>sqs_sent := sqs_sent s @ [ReceiveMessageCommand (queueUrl env) 10 20]\<rparr>"
      have n: "(fst (process_messages env (m # rest) s1) = None)
                 = deletes_succeed env (length (sqs_sent s) + 1) (m # rest)"
        using process_messages_None[of env "m # rest" s1] by (simp add: s1_def)
      have p: "pending (snd (process_messages env (m # rest) s1)) = pending s"
        using process_messages_frame[of env "m # rest" s1] by (simp add: s1_def)
      show ?thesis
      proof (cases "fst (process_messages env (m # rest) s1)")
        case None
        with n have "deletes_succeed env (length (sqs_sent s) + 1) (m # rest)" by simp
        with Inr Some Cons None p show ?thesis
          by (simp add: pollQueue_eq s1_def[symmetric] case_prod_beta call_pollQueue_def
              del: process_messages.simps deletes_succeed.simps)
      next
        case (Some e)
        with n have "\<not> deletes_succeed env (length (sqs_sent s) + 1) (m # rest)" by simp
        with Inr \<open>Messages response = Some ms\<close> Cons Some p show ?thesis
          by (simp add: pollQueue_eq s1_def[symmetric] case_prod_beta setTimeout_pollQueue_def
              logger_error_def pollingInterval_def
              del: process_messages.simps deletes_succeed.simps)
      qed
    qed
  qed
qed

lemma pollQueue_sent:
  "\<exists>rest. sqs_sent (pollQueue env s) = sqs_sent s @ ReceiveMessageCommand (queueUrl env) 10 20 # rest"
  "polls (pollQueue env s) = polls s + 1"
proof -
  define s1 where "s1 = s\<lparr>sqs_sent := sqs_sent s @ [ReceiveMessageCommand (queueUrl env) 10 20]\<rparr>"
  have f: "filter is_receive (sqs_sent (snd (process_messages env ms s1)))
             = filter is_receive (sqs_sent s) @ [ReceiveMessageCommand (queueUrl env) 10 20]" for ms
    using process_messages_frame[of env ms s1] by (simp add: s1_def is_receive_def)
  have g: "\<exists>rest. sqs_sent (snd (process_messages env ms s1))
             = sqs_sent s @ ReceiveMessageCommand (queueUrl env) 10 20 # rest" for ms
    using process_messages_frame[of env ms s1] by (auto simp add: s1_def)
  show "\<exists>rest. sqs_sent (pollQueue env s) = sqs_sent s @ ReceiveMessageCommand (queueUrl env) 10 20 # rest"
    using g
    by (simp add: pollQueue_eq s1_def[symmetric] case_prod_beta call_pollQueue_def
        setTimeout_pollQueue_def logger_error_def logger_log_def
        del: process_messages.simps split: sum.splits option.splits list.splits)
      (simp add: s1_def)
  show "polls (pollQueue env s) = polls s + 1"
    using f
    by (simp add: polls_def pollQueue_eq s1_def[symmetric] case_prod_beta call_pollQueue_def
        setTimeout_pollQueue_def logger_error_def logger_log_def
        del: process_messages.simps split: sum.splits option.splits list.splits)
      (simp add: s1_def is_receive_def)
qed

lemma run_keeps_polling:
  "pending s \<noteq> [] \<Longrightarrow> polls (run env n s) = polls s + n \<and> pending (run env n s) \<noteq> []"
proof (induction n arbitrary: s)
  case 0
  then show ?case by simp
next
  case (Suc n)
  then obtain p ps where ps: "pending s = p # ps" by (cases "pending s") auto
  define s1 where "s1 = pollQueue env (s\<lparr>pending := ps\<rparr>)"
  have "pending s1 \<noteq> []" by (simp add: s1_def pollQueue_pending)
  from Suc.IH[OF this] have "polls (run env n s1) = polls s1 + n \<and> pending (run env n s1) \<noteq> []" .
  moreover have "polls s1 = polls s + 1"
    by (simp add: s1_def pollQueue_sent(2)) (simp add: polls_def)
  ultimately show ?case by (simp add: ps s1_def)
qed


lemma process_message_compose:
  "process_message env m s =
     (case fst (sqsClient_send env (DeleteMessageCommand (queueUrl env) (ReceiptHandle m))
                  (snd (handleUserEvent env m
                          (logger_log ''${message.Body}''
                             [case Body m of None \<Rightarrow> JUndefined | Some text \<Rightarrow> JStr text] s)))) of
        Inl e \<Rightarrow> Some e
      | Inr out \<Rightarrow> None,
      snd (sqsClient_send env (DeleteMessageCommand (queueUrl env) (ReceiptHandle m))
             (snd (handleUserEvent env m
                     (logger_log ''${message.Body}''
                        [case Body m of None \<Rightarrow> JUndefined | Some text \<Rightarrow> JStr text] s)))))"
  using handleUserEvent_never_throws[of env m "logger_log ''${message.Body}''
                 [case Body m of None \<Rightarrow> JUndefined | Some text \<Rightarrow> JStr text] s"]
  by (simp add: process_message_def Let_def case_prod_beta split: sum.splits)

lemma process_messages_handled:
  "snd (process_messages env ms s) =
     foldl (\<lambda>st msg. snd (process_message env msg st)) s (handled env (length (sqs_sent s)) ms)"
proof (induction ms arbitrary: s)
  case Nil
  show ?case by simp
next
  case (Cons m ms)
  show ?case
  proof (cases "sqs_response env (length (sqs_sent s))
                  (DeleteMessageCommand (queueUrl env) (ReceiptHandle m))")
    case (Inl e)
    then show ?thesis
      by (simp add: process_messages_step process_message_eq del: process_messages.simps)
  next
    case (Inr out)
    then show ?thesis
      using Cons.IH[of "snd (process_message env m s)"]
      by (simp add: process_messages_step process_message_eq del: process_messages.simps)
  qed
qed

lemma foldl_process_message_sent:
  "sqs_sent (foldl (\<lambda>st msg. snd (process_message env msg st)) s ms) =
     sqs_sent s @ map (\<lambda>msg. DeleteMessageCommand (queueUrl env) (ReceiptHandle msg)) ms"
  by (induction ms arbitrary: s) (simp_all add: process_message_eq(2))

lemma process_messages_sent:
  "sqs_sent (snd (process_messages env ms s)) =
     sqs_sent s @ map (\<lambda>msg. DeleteMessageCommand (queueUrl env) (ReceiptHandle msg))
                    (handled env (length (sqs_sent s)) ms)"
  by (simp add: process_messages_handled foldl_process_message_sent)

lemma handled_all: "deletes_succeed env n ms \<Longrightarrow> handled env n ms = ms"
  by (induction ms arbitrary: n) (auto split: sum.splits)

lemma handled_split:
  "\<not> deletes_succeed env n ms \<Longrightarrow>
   \<exists>reached m left e. ms = reached @ m # left \<and> handled env n ms = reached @ [m]
      \<and> deletes_succeed env n reached
      \<and> sqs_response env (n + length reached)
            (DeleteMessageCommand (queueUrl env) (ReceiptHandle m)) = Inl e"
proof (induction ms arbitrary: n)
  case Nil
  then show ?case by simp
next
  case (Cons a ms)
  show ?case
  proof (cases "sqs_response env n (DeleteMessageCommand (queueUrl env) (ReceiptHandle a))")
    case (Inl e)
    have "a # ms = [] @ a # ms \<and> handled env n (a # ms) = [] @ [a]
      \<and> deletes_succeed env n []
      \<and> sqs_response env (n + length ([] :: message list))
            (DeleteMessageCommand (queueUrl env) (ReceiptHandle a)) = Inl e"
      using Inl by simp
    then show ?thesis by blast
  next
    case (Inr out)
    with Cons.prems have "\<not> deletes_succeed env (Suc n) ms" by simp
    from Cons.IH[OF this] obtain reached m left e where
      h: "ms = reached @ m # left" "handled env (Suc n) ms = reached @ [m]"
      "deletes_succeed env (Suc n) reached"
      "sqs_response env (Suc n + length reached)
            (DeleteMessageCommand (queueUrl env) (ReceiptHandle m)) = Inl e"
      by blast
    have "a # ms = (a # reached) @ m # left \<and> handled env n (a # ms) = (a # reached) @ [m]
      \<and> deletes_succeed env n (a # reached)
      \<and> sqs_response env (n + length (a # reached))
            (DeleteMessageCommand (queueUrl env) (ReceiptHandle m)) = Inl e"
      using h Inr by simp
    then show ?thesis by blast
  qed
qed

lemma pollQueue_batch:
  assumes "sqs_response env (length (sqs_sent s)) (ReceiveMessageCommand (queueUrl env) 10 20) = Inr r"
    and "Messages r = Some ms" and "ms \<noteq> []"
  shows "sqs_sent (pollQueue env s) =
           sqs_sent s @ ReceiveMessageCommand (queueUrl env) 10 20 #
             map (\<lambda>msg. DeleteMessageCommand (queueUrl env) (ReceiptHandle msg))
               (handled env (length (sqs_sent s) + 1) ms)"
    and "dynamo_sent (pollQueue env s) =
           dynamo_sent (foldl (\<lambda>st msg. snd (process_message env msg st))
              (s\<lparr>sqs_sent := sqs_sent s @ [ReceiveMessageCommand (queueUrl env) 10 20]\<rparr>)
              (handled env (length (sqs_sent s) + 1) ms))"
    and "table (pollQueue env s) =
           table (foldl (\<lambda>st msg. snd (process_message env msg st))
              (s\<lparr>sqs_sent := sqs_sent s @ [ReceiveMessageCommand (queueUrl env) 10 20]\<rparr>)
              (handled env (length (sqs_sent s) + 1) ms))"
proof -
  define s1 where "s1 = s\<lparr>sqs_sent := sqs_sent s @ [ReceiveMessageCommand (queueUrl env) 10 20]\<rparr>"
  obtain m rest where ms: "ms = m # rest" using assms(3) by (cases ms) auto
  have h: "snd (process_messages env ms s1) =
     foldl (\<lambda>st msg. snd (process_message env msg st)) s1 (handled env (length (sqs_sent s) + 1) ms)"
    using process_messages_handled[of env ms s1] by (simp add: s1_def)
  have p: "sqs_sent (pollQueue env s) = sqs_sent (snd (process_messages env ms s1))
     \<and> dynamo_sent (pollQueue env s) = dynamo_sent (snd (process_messages env ms s1))
     \<and> table (pollQueue env s) = table (snd (process_messages env ms s1))"
    using assms(1,2) unfolding ms
    by (simp add: pollQueue_eq s1_def[symmetric] case_prod_beta call_pollQueue_def
        setTimeout_pollQueue_def logger_error_def
        del: process_messages.simps split: option.splits)
  show "sqs_sent (pollQueue env s) =
           sqs_sent s @ ReceiveMessageCommand (queueUrl env) 10 20 #
             map (\<lambda>msg. DeleteMessageCommand (queueUrl env) (ReceiptHandle msg))
               (handled env (length (sqs_sent s) + 1) ms)"
    using p h by (simp add: foldl_process_message_sent s1_def)
  show "dynamo_sent (pollQueue env s) =
           dynamo_sent (foldl (\<lambda>st msg. snd (process_message env msg st))
              (s\<lparr>sqs_sent := sqs_sent s @ [ReceiveMessageCommand (queueUrl env) 10 20]\<rparr>)
              (handled env (length (sqs_sent s) + 1) ms))"
    using p h by (simp add: s1_def)
  show "table (pollQueue env s) =
           table (foldl (\<lambda>st msg. snd (process_message env msg st))
              (s\<lparr>sqs_sent := sqs_sent s @ [ReceiveMessageCommand (queueUrl env) 10 20]\<rparr>)
              (handled env (length (sqs_sent s) + 1) ms))"
    using p h by (simp add: s1_def)
qed

lemma pollQueue_no_batch:
  assumes "(\<exists>e. sqs_response env (length (sqs_sent s)) (ReceiveMessageCommand (queueUrl env) 10 20) = Inl e)
     \<or> (\<exists>r. sqs_response env (length (sqs_sent s)) (ReceiveMessageCommand (queueUrl env) 10 20) = Inr r
           \<and> (Messages r = None \<or> Messages r = Some []))"
  shows "sqs_sent (pollQueue env s) = sqs_sent s @ [ReceiveMessageCommand (queueUrl env) 10 20]
     \<and> dynamo_sent (pollQueue env s) = dynamo_sent s \<and> table (pollQueue env s) = table s"
  using assms
  by (auto simp add: pollQueue_eq setTimeout_pollQueue_def logger_error_def logger_log_def)

lemma fixture_receive:
  "sqs_response quiet_world 0 (ReceiveMessageCommand (queueUrl quiet_world) 10 20)
     = Inr (SqsOutput (Some [Message (Some ''{}'') (Some ''handle-1'')]))"
  "sqs_response quiet_world (Suc n) (ReceiveMessageCommand (queueUrl quiet_world) 10 20)
     = Inr (SqsOutput (Some []))"
  "sqs_response failing_delete_world 0 (ReceiveMessageCommand (queueUrl failing_delete_world) 10 20)
     = Inr (SqsOutput (Some [Message (Some ''{}'') (Some ''handle-1'')]))"
  "sqs_response unreachable_queue_world 0
      (ReceiveMessageCommand (queueUrl unreachable_queue_world) 10 20)
     = Inl (ServiceException ''NetworkingError'')"
  by (simp_all add: quiet_world_def failing_delete_world_def unreachable_queue_world_def
      fixture_queue_def)

lemma fixture_deletes:
  "deletes_succeed quiet_world 1 [Message (Some ''{}'') (Some ''handle-1'')]"
  "\<not> deletes_succeed failing_delete_world 1 [Message (Some ''{}'') (Some ''handle-1'')]"
  by (simp_all add: quiet_world_def failing_delete_world_def fixture_queue_def)

text \<open>
  C2.  No error of \<^verbatim>\<open>handleUserEvent\<close> reaches the Consume Loop: whatever its
  \<^verbatim>\<open>try\<close> block throws is logged by the outer \<^verbatim>\<open>catch\<close> and dropped.  A
  missing or empty body, a body that does not parse and a body without a truthy
  \<^verbatim>\<open>user\<close> or \<^verbatim>\<open>operation\<close> each throw inside the block; a request that the
  store fails is logged with the store's error (the outcome of a request depends on
  the table and on the number of requests sent before it, which the dispatcher does not
  change before sending).  And the loop deletes what it dispatched, whatever the
  dispatch did: the body of the loop is the dispatch of the message followed by the
  delete of its receipt handle, sent from the state the dispatch left, and only that
  delete can end the body with an exception; a batch is the run of this body over the
  messages the loop reaches, one delete per dispatched message and in their order, all
  of the batch when the deletes succeed; and \<^verbatim>\<open>pollQueue\<close> does exactly this to
  the batch it received.
\<close>

theorem dispatcher_swallows_errors_and_loop_deletes:
  "fst (handleUserEvent env m s) = None
   \<and> (\<forall>e s1. handleUserEvent_try env m s = (Some e, s1) \<longrightarrow>
         snd (handleUserEvent env m s) = logger_error ''Error handling SQS message:'' e s1)
   \<and> (Body m = None \<or> Body m = Some [] \<longrightarrow>
         fst (handleUserEvent_try env m s) = Some (Error ''Message body is missing''))
   \<and> (\<forall>text. Body m = Some text \<and> text \<noteq> [] \<and> JSON_parse env text = None \<longrightarrow>
         fst (handleUserEvent_try env m s) = Some (SyntaxError ''Unexpected token in JSON''))
   \<and> (\<forall>text body. Body m = Some text \<and> text \<noteq> [] \<and> JSON_parse env text = Some body
          \<and> (\<not> truthy (js_get body ''user'') \<or> \<not> truthy (js_get body ''operation'')) \<longrightarrow>
         fst (handleUserEvent_try env m s) =
           Some (if body = JNull \<or> body = JUndefined
                 then TypeError ''Cannot read properties of null or undefined''
                 else Error ''Invalid message structure''))
   \<and> (\<forall>c e. dynamo_sent (snd (handleUserEvent env m s)) = dynamo_sent s @ [c]
          \<and> fst (dynamoDBClient_send env c s) = Inl e \<longrightarrow>
         (\<exists>msg. ERROR msg e \<in> set (logs (snd (handleUserEvent env m s)))))
   \<and> sqs_sent (snd (process_message env m s)) =
       sqs_sent s @ [DeleteMessageCommand (queueUrl env) (ReceiptHandle m)]
   \<and> process_message env m s =
       (case fst (sqsClient_send env (DeleteMessageCommand (queueUrl env) (ReceiptHandle m))
                    (snd (handleUserEvent env m
                            (logger_log ''${message.Body}''
                               [case Body m of None \<Rightarrow> JUndefined | Some text \<Rightarrow> JStr text] s)))) of
          Inl e \<Rightarrow> Some e
        | Inr out \<Rightarrow> None,
        snd (sqsClient_send env (DeleteMessageCommand (queueUrl env) (ReceiptHandle m))
               (snd (handleUserEvent env m
                       (logger_log ''${message.Body}''
                          [case Body m of None \<Rightarrow> JUndefined | Some text \<Rightarrow> JStr text] s)))))
   \<and> (\<forall>ms. snd (process_messages env ms s) =
           foldl (\<lambda>st msg. snd (process_message env msg st)) s
             (handled env (length (sqs_sent s)) ms))
   \<and> (\<forall>ms. sqs_sent (snd (process_messages env ms s)) =
           sqs_sent s @ map (\<lambda>msg. DeleteMessageCommand (queueUrl env) (ReceiptHandle msg))
                          (handled env (length (sqs_sent s)) ms))
   \<and> (\<forall>ms. deletes_succeed env (length (sqs_sent s)) ms \<longrightarrow>
           handled env (length (sqs_sent s)) ms = ms)
   \<and> (\<forall>r ms. sqs_response env (length (sqs_sent s)) (ReceiveMessageCommand (queueUrl env) 10 20)
              = Inr r \<and> Messages r = Some ms \<and> ms \<noteq> []
         \<longrightarrow> sqs_sent (pollQueue env s) =
               sqs_sent s @ ReceiveMessageCommand (queueUrl env) 10 20 #
                 map (\<lambda>msg. DeleteMessageCommand (queueUrl env) (ReceiptHandle msg))
                   (handled env (length (sqs_sent s) + 1) ms)
             \<and> dynamo_sent (pollQueue env s) =
               dynamo_sent (foldl (\<lambda>st msg. snd (process_message env msg st))
                  (s\<lparr>sqs_sent := sqs_sent s @ [ReceiveMessageCommand (queueUrl env) 10 20]\<rparr>)
                  (handled env (length (sqs_sent s) + 1) ms))
             \<and> table (pollQueue env s) =
               table (foldl (\<lambda>st msg. snd (process_message env msg st))
                  (s\<lparr>sqs_sent := sqs_sent s @ [ReceiveMessageCommand (queueUrl env) 10 20]\<rparr>)
                  (handled env (length (sqs_sent s) + 1) ms)))"
proof -
  have a: "fst (handleUserEvent env m s) = None"
    by (rule handleUserEvent_never_throws)
  have b: "snd (handleUserEvent env m s) = logger_error ''Error handling SQS message:'' e s1"
    if "handleUserEvent_try env m s = (Some e, s1)" for e s1
    using that by (simp add: handleUserEvent_def)
  have c: "fst (handleUserEvent_try env m s) = Some (Error ''Message body is missing'')"
    if "Body m = None \<or> Body m = Some []"
    using that by (auto simp add: handleUserEvent_try_def parse_event_def)
  have d: "fst (handleUserEvent_try env m s) = Some (SyntaxError ''Unexpected token in JSON'')"
    if "Body m = Some t \<and> t \<noteq> [] \<and> JSON_parse env t = None" for t
    using that by (simp add: handleUserEvent_try_def parse_event_def)
  have e: "fst (handleUserEvent_try env m s) =
           Some (if body = JNull \<or> body = JUndefined
                 then TypeError ''Cannot read properties of null or undefined''
                 else Error ''Invalid message structure'')"
    if "Body m = Some t \<and> t \<noteq> [] \<and> JSON_parse env t = Some body
          \<and> (\<not> truthy (js_get body ''user'') \<or> \<not> truthy (js_get body ''operation''))" for t body
    using that by (auto simp add: handleUserEvent_try_def parse_event_def js_get_checked_def)
  have f: "\<exists>msg. ERROR msg e \<in> set (logs (snd (handleUserEvent env m s)))"
    if h: "dynamo_sent (snd (handleUserEvent env m s)) = dynamo_sent s @ [c]
          \<and> fst (dynamoDBClient_send env c s) = Inl e" for c e
  proof -
    have "dynamo_sent (snd (handleUserEvent_try env m s)) = dynamo_sent s @ [c]"
      using h by (simp add: handleUserEvent_def case_prod_beta logger_error_def split: option.splits)
    from try_store_error_logged[OF this] h
    obtain msg where "ERROR msg e \<in> set (logs (snd (handleUserEvent_try env m s)))" by blast
    then show ?thesis
      by (auto simp add: handleUserEvent_def case_prod_beta logger_error_def split: option.splits)
  qed
  have g: "sqs_sent (snd (process_message env m s)) =
       sqs_sent s @ [DeleteMessageCommand (queueUrl env) (ReceiptHandle m)]"
    using handleUserEvent_never_throws[of env m "logger_log ''${message.Body}''
                 [case Body m of None \<Rightarrow> JUndefined | Some text \<Rightarrow> JStr text] s"]
      handleUserEvent_queue_frame(1)[of env m "logger_log ''${message.Body}''
                 [case Body m of None \<Rightarrow> JUndefined | Some text \<Rightarrow> JStr text] s"]
    by (simp add: process_message_def Let_def case_prod_beta sqsClient_send_def logger_log_def
        split: sum.splits option.splits)
  note h = process_message_compose[of env m s]
  have i: "snd (process_messages env ms s) =
           foldl (\<lambda>st msg. snd (process_message env msg st)) s
             (handled env (length (sqs_sent s)) ms)" for ms
    by (rule process_messages_handled)
  have j: "sqs_sent (snd (process_messages env ms s)) =
           sqs_sent s @ map (\<lambda>msg. DeleteMessageCommand (queueUrl env) (ReceiptHandle msg))
                          (handled env (length (sqs_sent s)) ms)" for ms
    by (rule process_messages_sent)
  have k: "handled env (length (sqs_sent s)) ms = ms"
    if "deletes_succeed env (length (sqs_sent s)) ms" for ms
    using that by (rule handled_all)
  have l: "sqs_sent (pollQueue env s) =
               sqs_sent s @ ReceiveMessageCommand (queueUrl env) 10 20 #
                 map (\<lambda>msg. DeleteMessageCommand (queueUrl env) (ReceiptHandle msg))
                   (handled env (length (sqs_sent s) + 1) ms)
             \<and> dynamo_sent (pollQueue env s) =
               dynamo_sent (foldl (\<lambda>st msg. snd (process_message env msg st))
                  (s\<lparr>sqs_sent := sqs_sent s @ [ReceiveMessageCommand (queueUrl env) 10 20]\<rparr>)
                  (handled env (length (sqs_sent s) + 1) ms))
             \<and> table (pollQueue env s) =
               table (foldl (\<lambda>st msg. snd (process_message env msg st))
                  (s\<lparr>sqs_sent := sqs_sent s @ [ReceiveMessageCommand (queueUrl env) 10 20]\<rparr>)
                  (handled env (length (sqs_sent s) + 1) ms))"
    if "sqs_response env (length (sqs_sent s)) (ReceiveMessageCommand (queueUrl env) 10 20)
              = Inr r \<and> Messages r = Some ms \<and> ms \<noteq> []" for r ms
    using that pollQueue_batch[of env s r ms] by blast
  have first: "fst (handleUserEvent env m s) = None
   \<and> (\<forall>e s1. handleUserEvent_try env m s = (Some e, s1) \<longrightarrow>
         snd (handleUserEvent env m s) = logger_error ''Error handling SQS message:'' e s1)
   \<and> (Body m = None \<or> Body m = Some [] \<longrightarrow>
         fst (handleUserEvent_try env m s) = Some (Error ''Message body is missing''))"
    using a b c by blast
  show ?thesis
    apply (intro conjI)
    subgoal using a .
    subgoal using b by blast
    subgoal using c by blast
    subgoal using d by blast
    subgoal using e by blast
    subgoal using f by blast
    subgoal using g .
    subgoal using h .
    subgoal using i by blast
    subgoal using j by blast
    subgoal using k by blast
    subgoal using l by blast
    done
qed


theorem dispatcher_swallows_errors_and_loop_deletes_witness:
  "fst (handleUserEvent quiet_world (Message (Some ''{}'') (Some ''handle-1'')) empty_state) = None
   \<and> fst (handleUserEvent_try quiet_world (Message (Some ''{}'') (Some ''handle-1'')) empty_state)
       = Some (Error ''Invalid message structure'')
   \<and> fst (handleUserEvent_try quiet_world (Message None (Some ''handle-1'')) empty_state)
       = Some (Error ''Message body is missing'')
   \<and> fst (handleUserEvent_try quiet_world (Message (Some ''not json'') (Some ''handle-1'')) empty_state)
       = Some (SyntaxError ''Unexpected token in JSON'')
   \<and> sqs_sent (snd (process_message quiet_world (Message (Some ''{}'') (Some ''handle-1'')) empty_state))
       = [DeleteMessageCommand ''test-queue'' (Some ''handle-1'')]
   \<and> (\<exists>msg. ERROR msg (ServiceException ''ServiceUnavailable'')
         \<in> set (logs (snd (handleUserEvent down_world (Message (Some ''john-create'') (Some ''handle-2''))
                            empty_state))))
   \<and> sqs_sent (snd (process_message down_world (Message (Some ''john-create'') (Some ''handle-2''))
                      empty_state))
       = [DeleteMessageCommand ''test-queue'' (Some ''handle-2'')]
   \<and> fst (process_message failing_delete_world (Message (Some ''{}'') (Some ''handle-1'')) empty_state)
       = Some (ServiceException ''ReceiptHandleIsInvalid'')
   \<and> logs (snd (process_message failing_delete_world (Message (Some ''{}'') (Some ''handle-1''))
                   empty_state))
       = [LOG ''${message.Body}'' [JStr ''{}''],
          ERROR ''Error handling SQS message:'' (Error ''Invalid message structure'')]
   \<and> sqs_sent (pollQueue pair_world empty_state)
       = [ReceiveMessageCommand ''test-queue'' 10 20,
          DeleteMessageCommand ''test-queue'' (Some ''handle-1''),
          DeleteMessageCommand ''test-queue'' (Some ''handle-2'')]
   \<and> (\<exists>it. dynamo_sent (pollQueue pair_world empty_state) = [PutItemCommand ''users'' it])
   \<and> sqs_sent (pollQueue failing_delete_pair_world empty_state)
       = [ReceiveMessageCommand ''test-queue'' 10 20,
          DeleteMessageCommand ''test-queue'' (Some ''handle-1'')]
   \<and> dynamo_sent (pollQueue failing_delete_pair_world empty_state) = []"
proof -
  have p1: "JSON_parse quiet_world ''{}'' = Some (JObj [])"
    by (simp add: quiet_world_def parse_fixture_def)
  have p2: "JSON_parse quiet_world ''not json'' = None"
    by (simp add: quiet_world_def parse_fixture_def)
  have sent: "dynamo_sent (snd (handleUserEvent down_world
                  (Message (Some ''john-create'') (Some ''handle-2'')) empty_state))
        = dynamo_sent empty_state @
          [PutItemCommand ''users''
             [ ''id'' \<mapsto> S (JStr ''uuid-0''), ''firstName'' \<mapsto> S (JStr ''John''),
               ''lastName'' \<mapsto> S (JStr ''Doe''), ''email'' \<mapsto> S (JStr ''john@x.com''),
               ''dob'' \<mapsto> S (JStr ''2000-01-01''), ''status'' \<mapsto> S (JStr ''active''),
               ''createdAt'' \<mapsto> S (JStr ''2024-01-01T00:00:00.000Z''),
               ''updatedAt'' \<mapsto> S (JStr ''2024-01-01T00:00:00.001Z'') ]]"
    by (simp add: handleUserEvent_def handleUserEvent_try_def parse_event_def js_get_checked_def
        parse_fixture_def john_create_def create_params_def call_uuidv4_def js_or_def
        convertToAttr_def handleUserEvent_create_def new_Date_toISOString_def
        dynamoDBClient_send_def down_world_def quiet_world_def empty_state_def logger_error_def
        fun_upd_twist)
  have failed: "fst (dynamoDBClient_send down_world
          (PutItemCommand ''users''
             [ ''id'' \<mapsto> S (JStr ''uuid-0''), ''firstName'' \<mapsto> S (JStr ''John''),
               ''lastName'' \<mapsto> S (JStr ''Doe''), ''email'' \<mapsto> S (JStr ''john@x.com''),
               ''dob'' \<mapsto> S (JStr ''2000-01-01''), ''status'' \<mapsto> S (JStr ''active''),
               ''createdAt'' \<mapsto> S (JStr ''2024-01-01T00:00:00.000Z''),
               ''updatedAt'' \<mapsto> S (JStr ''2024-01-01T00:00:00.001Z'') ]) empty_state)
        = Inl (ServiceException ''ServiceUnavailable'')"
    by (simp add: dynamoDBClient_send_def down_world_def quiet_world_def empty_state_def)
  have e: "length (sqs_sent empty_state) = 0" "sqs_sent empty_state = []"
    by (simp_all add: empty_state_def)
  have q: "queueUrl quiet_world = ''test-queue''" "queueUrl down_world = ''test-queue''"
    "queueUrl pair_world = ''test-queue''" "queueUrl failing_delete_pair_world = ''test-queue''"
    by (simp_all add: quiet_world_def down_world_def pair_world_def failing_delete_pair_world_def)
  have recv: "sqs_response pair_world 0 (ReceiveMessageCommand ''test-queue'' 10 20)
       = Inr (SqsOutput (Some batch_of_two))"
    "sqs_response failing_delete_pair_world 0 (ReceiveMessageCommand ''test-queue'' 10 20)
       = Inr (SqsOutput (Some batch_of_two))"
    by (simp_all add: pair_world_def failing_delete_pair_world_def quiet_world_def)
  have reach: "handled pair_world (Suc 0) batch_of_two = batch_of_two"
    "handled failing_delete_pair_world (Suc 0) batch_of_two
       = [Message (Some ''{}'') (Some ''handle-1'')]"
    by (simp_all add: pair_world_def failing_delete_pair_world_def quiet_world_def batch_of_two_def)
  have two: "batch_of_two \<noteq> []" by (simp add: batch_of_two_def)
  note a = dispatcher_swallows_errors_and_loop_deletes
             [of quiet_world "Message (Some ''{}'') (Some ''handle-1'')" empty_state]
  note b = dispatcher_swallows_errors_and_loop_deletes
             [of quiet_world "Message None (Some ''handle-1'')" empty_state]
  note c = dispatcher_swallows_errors_and_loop_deletes
             [of quiet_world "Message (Some ''not json'') (Some ''handle-1'')" empty_state]
  note d = dispatcher_swallows_errors_and_loop_deletes
             [of down_world "Message (Some ''john-create'') (Some ''handle-2'')" empty_state]
  note f = dispatcher_swallows_errors_and_loop_deletes
             [of failing_delete_world "Message (Some ''{}'') (Some ''handle-1'')" empty_state]
  note g = dispatcher_swallows_errors_and_loop_deletes
             [of pair_world "Message None None" empty_state]
  note h = dispatcher_swallows_errors_and_loop_deletes
             [of failing_delete_pair_world "Message None None" empty_state]
  have 1: "fst (handleUserEvent quiet_world (Message (Some ''{}'') (Some ''handle-1'')) empty_state) = None"
    using a[THEN conjunct1] .
  have 2: "fst (handleUserEvent_try quiet_world (Message (Some ''{}'') (Some ''handle-1'')) empty_state)
       = Some (Error ''Invalid message structure'')"
    using a[THEN conjunct2, THEN conjunct2, THEN conjunct2, THEN conjunct2, THEN conjunct1] p1 by simp
  have 3: "fst (handleUserEvent_try quiet_world (Message None (Some ''handle-1'')) empty_state)
       = Some (Error ''Message body is missing'')"
    using b[THEN conjunct2, THEN conjunct2, THEN conjunct1] by simp
  have 4: "fst (handleUserEvent_try quiet_world (Message (Some ''not json'') (Some ''handle-1'')) empty_state)
       = Some (SyntaxError ''Unexpected token in JSON'')"
    using c[THEN conjunct2, THEN conjunct2, THEN conjunct2, THEN conjunct1] p2 by simp
  have 5: "sqs_sent (snd (process_message quiet_world (Message (Some ''{}'') (Some ''handle-1'')) empty_state))
       = [DeleteMessageCommand ''test-queue'' (Some ''handle-1'')]"
    using a[THEN conjunct2, THEN conjunct2, THEN conjunct2, THEN conjunct2, THEN conjunct2, THEN conjunct2, THEN conjunct1] by (simp add: e q)
  have 6: "\<exists>msg. ERROR msg (ServiceException ''ServiceUnavailable'')
         \<in> set (logs (snd (handleUserEvent down_world (Message (Some ''john-create'') (Some ''handle-2''))
                            empty_state)))"
    using d[THEN conjunct2, THEN conjunct2, THEN conjunct2, THEN conjunct2, THEN conjunct2, THEN conjunct1] sent failed by blast
  have 7: "sqs_sent (snd (process_message down_world (Message (Some ''john-create'') (Some ''handle-2''))
                      empty_state))
       = [DeleteMessageCommand ''test-queue'' (Some ''handle-2'')]"
    using d[THEN conjunct2, THEN conjunct2, THEN conjunct2, THEN conjunct2, THEN conjunct2, THEN conjunct2, THEN conjunct1] by (simp add: e q)
  have dispatched: "snd (handleUserEvent failing_delete_world (Message (Some ''{}'') (Some ''handle-1''))
          (logger_log ''${message.Body}'' [JStr ''{}''] empty_state))
      = empty_state\<lparr>logs := [LOG ''${message.Body}'' [JStr ''{}''],
            ERROR ''Error handling SQS message:'' (Error ''Invalid message structure'')]\<rparr>"
    by (simp add: handleUserEvent_def handleUserEvent_try_def parse_event_def js_get_checked_def
        parse_fixture_def failing_delete_world_def quiet_world_def empty_state_def
        logger_log_def logger_error_def)
  have 8: "fst (process_message failing_delete_world (Message (Some ''{}'') (Some ''handle-1'')) empty_state)
       = Some (ServiceException ''ReceiptHandleIsInvalid'')
     \<and> logs (snd (process_message failing_delete_world (Message (Some ''{}'') (Some ''handle-1''))
                   empty_state))
       = [LOG ''${message.Body}'' [JStr ''{}''],
          ERROR ''Error handling SQS message:'' (Error ''Invalid message structure'')]"
    unfolding f[THEN conjunct2, THEN conjunct2, THEN conjunct2, THEN conjunct2, THEN conjunct2, THEN conjunct2, THEN conjunct2, THEN conjunct1]
    by (simp add: dispatched) (simp add: sqsClient_send_def failing_delete_world_def)
  have 9: "sqs_sent (pollQueue pair_world empty_state)
       = [ReceiveMessageCommand ''test-queue'' 10 20,
          DeleteMessageCommand ''test-queue'' (Some ''handle-1''),
          DeleteMessageCommand ''test-queue'' (Some ''handle-2'')]"
    using g[THEN conjunct2, THEN conjunct2, THEN conjunct2, THEN conjunct2, THEN conjunct2, THEN conjunct2, THEN conjunct2, THEN conjunct2, THEN conjunct2, THEN conjunct2, THEN conjunct2, rule_format, of "SqsOutput (Some batch_of_two)" batch_of_two] recv(1) two
    by (simp add: e q reach) (simp add: batch_of_two_def)
  have 10: "\<exists>it. dynamo_sent (pollQueue pair_world empty_state) = [PutItemCommand ''users'' it]"
  proof -
    have "dynamo_sent (pollQueue pair_world empty_state) =
               dynamo_sent (foldl (\<lambda>st msg. snd (process_message pair_world msg st))
                  (empty_state\<lparr>sqs_sent := [ReceiveMessageCommand ''test-queue'' 10 20]\<rparr>)
                  batch_of_two)"
      using g[THEN conjunct2, THEN conjunct2, THEN conjunct2, THEN conjunct2, THEN conjunct2, THEN conjunct2, THEN conjunct2, THEN conjunct2, THEN conjunct2, THEN conjunct2, THEN conjunct2, rule_format, of "SqsOutput (Some batch_of_two)" batch_of_two] recv(1) two
      by (simp add: e q reach)
    then show ?thesis
      by (simp add: batch_of_two_def process_message_def sqsClient_send_def
        handleUserEvent_def handleUserEvent_try_def parse_event_def js_get_checked_def
        parse_fixture_def john_create_def create_params_def call_uuidv4_def js_or_def
        convertToAttr_def handleUserEvent_create_def new_Date_toISOString_def
        dynamoDBClient_send_def pair_world_def quiet_world_def empty_state_def
        logger_log_def logger_error_def)
  qed
  have 11: "sqs_sent (pollQueue failing_delete_pair_world empty_state)
       = [ReceiveMessageCommand ''test-queue'' 10 20,
          DeleteMessageCommand ''test-queue'' (Some ''handle-1'')]"
    using h[THEN conjunct2, THEN conjunct2, THEN conjunct2, THEN conjunct2, THEN conjunct2, THEN conjunct2, THEN conjunct2, THEN conjunct2, THEN conjunct2, THEN conjunct2, THEN conjunct2, rule_format, of "SqsOutput (Some batch_of_two)" batch_of_two] recv(2) two
    by (simp add: e q reach)
  have 12: "dynamo_sent (pollQueue failing_delete_pair_world empty_state) = []"
  proof -
    have "dynamo_sent (pollQueue failing_delete_pair_world empty_state) =
               dynamo_sent (foldl (\<lambda>st msg. snd (process_message failing_delete_pair_world msg st))
                  (empty_state\<lparr>sqs_sent := [ReceiveMessageCommand ''test-queue'' 10 20]\<rparr>)
                  [Message (Some ''{}'') (Some ''handle-1'')])"
      using h[THEN conjunct2, THEN conjunct2, THEN conjunct2, THEN conjunct2, THEN conjunct2, THEN conjunct2, THEN conjunct2, THEN conjunct2, THEN conjunct2, THEN conjunct2, THEN conjunct2, rule_format, of "SqsOutput (Some batch_of_two)" batch_of_two] recv(2) two
      by (simp add: e q reach)
    then show ?thesis
      by (simp add: process_message_def sqsClient_send_def
        handleUserEvent_def handleUserEvent_try_def parse_event_def js_get_checked_def
        parse_fixture_def failing_delete_pair_world_def quiet_world_def empty_state_def
        logger_log_def logger_error_def)
  qed
  show ?thesis using 1 2 3 4 5 6 7 8 9 10 11 12 by blast
qed

text \<open>
  C8, as the spec states it, has the loop poll again at once after every non-empty
  batch.  The \<^verbatim>\<open>try\<close> block of \<^verbatim>\<open>pollQueue\<close> also holds the deletes, so a
  delete that fails ends in the \<^verbatim>\<open>catch\<close> of lines 77 to 81: the rest of the batch
  is left, and the next poll is scheduled after the polling interval.
\<close>

theorem failed_delete_delays_next_poll_counterexample:
  "sqs_response failing_delete_world (length (sqs_sent empty_state))
      (ReceiveMessageCommand (queueUrl failing_delete_world) 10 20)
     = Inr (SqsOutput (Some [Message (Some ''{}'') (Some ''handle-1'')]))
   \<and> pending (pollQueue failing_delete_world empty_state) = [After 10000]
   \<and> pending (pollQueue failing_delete_world empty_state) \<noteq> [Immediately]"
proof -
  have e: "length (sqs_sent empty_state) = 0" "pending empty_state = []"
    by (simp_all add: empty_state_def)
  show ?thesis
    using fixture_deletes(2)
    by (simp add: pollQueue_pending e fixture_receive del: deletes_succeed.simps)
qed

text \<open>
  C8, amended.  Every invocation of \<^verbatim>\<open>pollQueue\<close> first asks the queue for up to
  10 messages with a wait of 20 seconds, and schedules exactly one next invocation:
  at once when the batch is non-empty and every delete of the batch succeeds; after the
  polling interval of 10000 milliseconds when the receive fails, when the batch is
  empty or missing, and when a delete fails.  A delete that fails ends the batch: the
  requests of the invocation are the receive and one delete for each message the loop
  reached, that is for the messages up to and including the one whose delete failed,
  and the messages behind it are neither dispatched nor deleted (the table and the
  requests to the store are those of the run of the loop body over the reached
  messages); without a batch the receive is the only request and the store is left
  alone.  So the loop never stops: once started by
  \<^verbatim>\<open>onModuleInit\<close>, \<open>n\<close> steps of the runtime make \<open>n\<close> receive calls and leave
  an invocation pending, for every \<open>n\<close>.  (The delay is the argument handed to
  \<^verbatim>\<open>setTimeout\<close>; elapsed time is not modelled.)
\<close>

theorem pollQueue_always_reschedules:
  "(\<exists>rest. sqs_sent (pollQueue env s)
             = sqs_sent s @ ReceiveMessageCommand (queueUrl env) 10 20 # rest)
   \<and> (\<forall>e. sqs_response env (length (sqs_sent s)) (ReceiveMessageCommand (queueUrl env) 10 20)
            = Inl e
         \<longrightarrow> pending (pollQueue env s) = pending s @ [After pollingInterval])
   \<and> (\<forall>r. sqs_response env (length (sqs_sent s)) (ReceiveMessageCommand (queueUrl env) 10 20)
            = Inr r \<and> (Messages r = None \<or> Messages r = Some [])
         \<longrightarrow> pending (pollQueue env s) = pending s @ [After pollingInterval])
   \<and> (\<forall>r ms. sqs_response env (length (sqs_sent s)) (ReceiveMessageCommand (queueUrl env) 10 20)
            = Inr r \<and> Messages r = Some ms \<and> ms \<noteq> []
         \<longrightarrow> pending (pollQueue env s) = pending s @
               [if deletes_succeed env (length (sqs_sent s) + 1) ms
                then Immediately else After pollingInterval])
   \<and> pollingInterval = 10000
   \<and> polls (run env n (onModuleInit s)) = polls s + n
   \<and> pending (run env n (onModuleInit s)) \<noteq> []
   \<and> (\<forall>e. sqs_response env (length (sqs_sent s)) (ReceiveMessageCommand (queueUrl env) 10 20)
            = Inl e
         \<longrightarrow> sqs_sent (pollQueue env s) = sqs_sent s @ [ReceiveMessageCommand (queueUrl env) 10 20]
             \<and> dynamo_sent (pollQueue env s) = dynamo_sent s
             \<and> table (pollQueue env s) = table s)
   \<and> (\<forall>r. sqs_response env (length (sqs_sent s)) (ReceiveMessageCommand (queueUrl env) 10 20)
            = Inr r \<and> (Messages r = None \<or> Messages r = Some [])
         \<longrightarrow> sqs_sent (pollQueue env s) = sqs_sent s @ [ReceiveMessageCommand (queueUrl env) 10 20]
             \<and> dynamo_sent (pollQueue env s) = dynamo_sent s
             \<and> table (pollQueue env s) = table s)
   \<and> (\<forall>r ms. sqs_response env (length (sqs_sent s)) (ReceiveMessageCommand (queueUrl env) 10 20)
            = Inr r \<and> Messages r = Some ms \<and> ms \<noteq> []
         \<longrightarrow> sqs_sent (pollQueue env s) =
               sqs_sent s @ ReceiveMessageCommand (queueUrl env) 10 20 #
                 map (\<lambda>msg. DeleteMessageCommand (queueUrl env) (ReceiptHandle msg))
                   (handled env (length (sqs_sent s) + 1) ms)
             \<and> dynamo_sent (pollQueue env s) =
               dynamo_sent (foldl (\<lambda>st msg. snd (process_message env msg st))
                  (s\<lparr>sqs_sent := sqs_sent s @ [ReceiveMessageCommand (queueUrl env) 10 20]\<rparr>)
                  (handled env (length (sqs_sent s) + 1) ms))
             \<and> table (pollQueue env s) =
               table (foldl (\<lambda>st msg. snd (process_message env msg st))
                  (s\<lparr>sqs_sent := sqs_sent s @ [ReceiveMessageCommand (queueUrl env) 10 20]\<rparr>)
                  (handled env (length (sqs_sent s) + 1) ms)))
   \<and> (\<forall>k ms. deletes_succeed env k ms \<longrightarrow> handled env k ms = ms)
   \<and> (\<forall>k ms. \<not> deletes_succeed env k ms \<longrightarrow>
          (\<exists>reached m left e. ms = reached @ m # left \<and> handled env k ms = reached @ [m]
             \<and> deletes_succeed env k reached
             \<and> sqs_response env (k + length reached)
                  (DeleteMessageCommand (queueUrl env) (ReceiptHandle m)) = Inl e))"
proof -
  have a: "\<exists>rest. sqs_sent (pollQueue env s)
             = sqs_sent s @ ReceiveMessageCommand (queueUrl env) 10 20 # rest"
    by (rule pollQueue_sent(1))
  have b: "pending (pollQueue env s) = pending s @ [After pollingInterval]"
    if "sqs_response env (length (sqs_sent s)) (ReceiveMessageCommand (queueUrl env) 10 20) = Inl e"
    for e
    using that by (simp add: pollQueue_pending pollingInterval_def)
  have c: "pending (pollQueue env s) = pending s @ [After pollingInterval]"
    if "sqs_response env (length (sqs_sent s)) (ReceiveMessageCommand (queueUrl env) 10 20)
            = Inr r \<and> (Messages r = None \<or> Messages r = Some [])" for r
    using that by (auto simp add: pollQueue_pending pollingInterval_def)
  have d: "pending (pollQueue env s) = pending s @
               [if deletes_succeed env (length (sqs_sent s) + 1) ms
                then Immediately else After pollingInterval]"
    if "sqs_response env (length (sqs_sent s)) (ReceiveMessageCommand (queueUrl env) 10 20)
            = Inr r \<and> Messages r = Some ms \<and> ms \<noteq> []" for r ms
    using that by (simp add: pollQueue_pending pollingInterval_def del: deletes_succeed.simps)
  have e: "polls (run env n (onModuleInit s)) = polls s + n
           \<and> pending (run env n (onModuleInit s)) \<noteq> []"
    using run_keeps_polling[of "onModuleInit s" env n]
    by (simp add: onModuleInit_def call_pollQueue_def polls_def)
  have f: "sqs_sent (pollQueue env s) = sqs_sent s @ [ReceiveMessageCommand (queueUrl env) 10 20]
             \<and> dynamo_sent (pollQueue env s) = dynamo_sent s
             \<and> table (pollQueue env s) = table s"
    if "sqs_response env (length (sqs_sent s)) (ReceiveMessageCommand (queueUrl env) 10 20) = Inl e"
    for e
    using that pollQueue_no_batch[of env s] by blast
  have g: "sqs_sent (pollQueue env s) = sqs_sent s @ [ReceiveMessageCommand (queueUrl env) 10 20]
             \<and> dynamo_sent (pollQueue env s) = dynamo_sent s
             \<and> table (pollQueue env s) = table s"
    if "sqs_response env (length (sqs_sent s)) (ReceiveMessageCommand (queueUrl env) 10 20)
            = Inr r \<and> (Messages r = None \<or> Messages r = Some [])" for r
    using that pollQueue_no_batch[of env s] by blast
  have h: "sqs_sent (pollQueue env s) =
               sqs_sent s @ ReceiveMessageCommand (queueUrl env) 10 20 #
                 map (\<lambda>msg. DeleteMessageCommand (queueUrl env) (ReceiptHandle msg))
                   (handled env (length (sqs_sent s) + 1) ms)
             \<and> dynamo_sent (pollQueue env s) =
               dynamo_sent (foldl (\<lambda>st msg. snd (process_message env msg st))
                  (s\<lparr>sqs_sent := sqs_sent s @ [ReceiveMessageCommand (queueUrl env) 10 20]\<rparr>)
                  (handled env (length (sqs_sent s) + 1) ms))
             \<and> table (pollQueue env s) =
               table (foldl (\<lambda>st msg. snd (process_message env msg st))
                  (s\<lparr>sqs_sent := sqs_sent s @ [ReceiveMessageCommand (queueUrl env) 10 20]\<rparr>)
                  (handled env (length (sqs_sent s) + 1) ms))"
    if "sqs_response env (length (sqs_sent s)) (ReceiveMessageCommand (queueUrl env) 10 20)
            = Inr r \<and> Messages r = Some ms \<and> ms \<noteq> []" for r ms
    using that pollQueue_batch[of env s r ms] by blast
  have i: "handled env k ms = ms" if "deletes_succeed env k ms" for k ms
    using that by (rule handled_all)
  have j: "\<exists>reached m left e. ms = reached @ m # left \<and> handled env k ms = reached @ [m]
             \<and> deletes_succeed env k reached
             \<and> sqs_response env (k + length reached)
                  (DeleteMessageCommand (queueUrl env) (ReceiptHandle m)) = Inl e"
    if "\<not> deletes_succeed env k ms" for k ms
    using that by (rule handled_split)
  show ?thesis
    apply (intro conjI)
    subgoal using a .
    subgoal using b by blast
    subgoal using c by blast
    subgoal using d by blast
    subgoal using pollingInterval_def .
    subgoal using e by blast
    subgoal using e by blast
    subgoal using f by blast
    subgoal using g by blast
    subgoal using h by blast
    subgoal using i by blast
    subgoal using j by blast
    done
qed

theorem pollQueue_always_reschedules_witness:
  "pending (pollQueue quiet_world empty_state) = [Immediately]
   \<and> pending (pollQueue failing_delete_world empty_state) = [After 10000]
   \<and> pending (pollQueue unreachable_queue_world empty_state) = [After 10000]
   \<and> pending (pollQueue quiet_world
                (empty_state\<lparr>sqs_sent := [ReceiveMessageCommand ''test-queue'' 10 20]\<rparr>))
       = [After 10000]
   \<and> polls (run quiet_world 5 (onModuleInit empty_state)) = 5
   \<and> sqs_sent (pollQueue unreachable_queue_world empty_state)
       = [ReceiveMessageCommand ''test-queue'' 10 20]
   \<and> sqs_sent (pollQueue failing_delete_pair_world empty_state)
       = [ReceiveMessageCommand ''test-queue'' 10 20,
          DeleteMessageCommand ''test-queue'' (Some ''handle-1'')]
   \<and> dynamo_sent (pollQueue failing_delete_pair_world empty_state) = []
   \<and> pending (pollQueue failing_delete_pair_world empty_state) = [After 10000]
   \<and> (\<exists>it. dynamo_sent (pollQueue pair_world empty_state) = [PutItemCommand ''users'' it])
   \<and> pending (pollQueue pair_world empty_state) = [Immediately]"
proof -
  note q = pollQueue_always_reschedules[of quiet_world empty_state 5]
  note f = pollQueue_always_reschedules[of failing_delete_world empty_state 0]
  note u = pollQueue_always_reschedules[of unreachable_queue_world empty_state 0]
  note r = pollQueue_always_reschedules
             [of quiet_world "empty_state\<lparr>sqs_sent := [ReceiveMessageCommand ''test-queue'' 10 20]\<rparr>" 0]
  note fp = pollQueue_always_reschedules[of failing_delete_pair_world empty_state 0]
  note pp = pollQueue_always_reschedules[of pair_world empty_state 0]
  have e: "length (sqs_sent empty_state) = 0" "pending empty_state = []" "polls empty_state = 0"
    "sqs_sent empty_state = []"
    by (simp_all add: empty_state_def polls_def)
  have qu: "queueUrl unreachable_queue_world = ''test-queue''"
    "queueUrl pair_world = ''test-queue''" "queueUrl failing_delete_pair_world = ''test-queue''"
    by (simp_all add: quiet_world_def unreachable_queue_world_def pair_world_def
        failing_delete_pair_world_def)
  have recv: "sqs_response pair_world 0 (ReceiveMessageCommand ''test-queue'' 10 20)
       = Inr (SqsOutput (Some batch_of_two))"
    "sqs_response failing_delete_pair_world 0 (ReceiveMessageCommand ''test-queue'' 10 20)
       = Inr (SqsOutput (Some batch_of_two))"
    "sqs_response unreachable_queue_world 0 (ReceiveMessageCommand ''test-queue'' 10 20)
       = Inl (ServiceException ''NetworkingError'')"
    by (simp_all add: pair_world_def failing_delete_pair_world_def unreachable_queue_world_def
        quiet_world_def)
  have reach: "handled pair_world (Suc 0) batch_of_two = batch_of_two"
    "handled failing_delete_pair_world (Suc 0) batch_of_two
       = [Message (Some ''{}'') (Some ''handle-1'')]"
    "deletes_succeed pair_world (Suc 0) batch_of_two"
    "\<not> deletes_succeed failing_delete_pair_world (Suc 0) batch_of_two"
    by (simp_all add: pair_world_def failing_delete_pair_world_def quiet_world_def batch_of_two_def)
  have two: "batch_of_two \<noteq> []" by (simp add: batch_of_two_def)
  have 1: "pending (pollQueue quiet_world empty_state) = [Immediately]"
    using q[THEN conjunct2, THEN conjunct2, THEN conjunct2, THEN conjunct1] fixture_receive(1) fixture_deletes(1)
    by (simp add: e del: deletes_succeed.simps)
  have 2: "pending (pollQueue failing_delete_world empty_state) = [After 10000]"
    using f[THEN conjunct2, THEN conjunct2, THEN conjunct2, THEN conjunct1] f[THEN conjunct2, THEN conjunct2, THEN conjunct2, THEN conjunct2, THEN conjunct1] fixture_receive(3) fixture_deletes(2)
    by (simp add: e del: deletes_succeed.simps)
  have 3: "pending (pollQueue unreachable_queue_world empty_state) = [After 10000]"
    using u[THEN conjunct2, THEN conjunct1] u[THEN conjunct2, THEN conjunct2, THEN conjunct2, THEN conjunct2, THEN conjunct1] fixture_receive(4)
    by (simp add: e)
  have 4: "pending (pollQueue quiet_world
                (empty_state\<lparr>sqs_sent := [ReceiveMessageCommand ''test-queue'' 10 20]\<rparr>))
       = [After 10000]"
    using r[THEN conjunct2, THEN conjunct2, THEN conjunct1] r[THEN conjunct2, THEN conjunct2, THEN conjunct2, THEN conjunct2, THEN conjunct1] fixture_receive(2)[of 0]
    by (simp add: e)
  have 5: "polls (run quiet_world 5 (onModuleInit empty_state)) = 5"
    using q[THEN conjunct2, THEN conjunct2, THEN conjunct2, THEN conjunct2, THEN conjunct2, THEN conjunct1] by (simp add: e)
  have 6: "sqs_sent (pollQueue unreachable_queue_world empty_state)
       = [ReceiveMessageCommand ''test-queue'' 10 20]"
    using u[THEN conjunct2, THEN conjunct2, THEN conjunct2, THEN conjunct2, THEN conjunct2, THEN conjunct2, THEN conjunct2, THEN conjunct1] recv(3) by (simp add: e qu)
  note fpb = fp[THEN conjunct2, THEN conjunct2, THEN conjunct2, THEN conjunct2, THEN conjunct2, THEN conjunct2, THEN conjunct2, THEN conjunct2, THEN conjunct2, THEN conjunct1, rule_format, of "SqsOutput (Some batch_of_two)" batch_of_two]
  note ppb = pp[THEN conjunct2, THEN conjunct2, THEN conjunct2, THEN conjunct2, THEN conjunct2, THEN conjunct2, THEN conjunct2, THEN conjunct2, THEN conjunct2, THEN conjunct1, rule_format, of "SqsOutput (Some batch_of_two)" batch_of_two]
  have 7: "sqs_sent (pollQueue failing_delete_pair_world empty_state)
       = [ReceiveMessageCommand ''test-queue'' 10 20,
          DeleteMessageCommand ''test-queue'' (Some ''handle-1'')]"
    using fpb recv(2) two by (simp add: e qu reach)
  have 8: "dynamo_sent (pollQueue failing_delete_pair_world empty_state) = []"
  proof -
    have "dynamo_sent (pollQueue failing_delete_pair_world empty_state) =
               dynamo_sent (foldl (\<lambda>st msg. snd (process_message failing_delete_pair_world msg st))
                  (empty_state\<lparr>sqs_sent := [ReceiveMessageCommand ''test-queue'' 10 20]\<rparr>)
                  [Message (Some ''{}'') (Some ''handle-1'')])"
      using fpb recv(2) two by (simp add: e qu reach)
    then show ?thesis
      by (simp add: process_message_def sqsClient_send_def
        handleUserEvent_def handleUserEvent_try_def parse_event_def js_get_checked_def
        parse_fixture_def failing_delete_pair_world_def quiet_world_def empty_state_def
        logger_log_def logger_error_def)
  qed
  have 9: "pending (pollQueue failing_delete_pair_world empty_state) = [After 10000]"
    using fp[THEN conjunct2, THEN conjunct2, THEN conjunct2, THEN conjunct1, rule_format, of "SqsOutput (Some batch_of_two)" batch_of_two] fp[THEN conjunct2, THEN conjunct2, THEN conjunct2, THEN conjunct2, THEN conjunct1]
      recv(2) two reach(4)
    by (simp add: e qu del: deletes_succeed.simps)
  have 10: "\<exists>it. dynamo_sent (pollQueue pair_world empty_state) = [PutItemCommand ''users'' it]"
  proof -
    have "dynamo_sent (pollQueue pair_world empty_state) =
               dynamo_sent (foldl (\<lambda>st msg. snd (process_message pair_world msg st))
                  (empty_state\<lparr>sqs_sent := [ReceiveMessageCommand ''test-queue'' 10 20]\<rparr>)
                  batch_of_two)"
      using ppb recv(1) two by (simp add: e qu reach)
    then show ?thesis
      by (simp add: batch_of_two_def process_message_def sqsClient_send_def
        handleUserEvent_def handleUserEvent_try_def parse_event_def js_get_checked_def
        parse_fixture_def john_create_def create_params_def call_uuidv4_def js_or_def
        convertToAttr_def handleUserEvent_create_def new_Date_toISOString_def
        dynamoDBClient_send_def pair_world_def quiet_world_def empty_state_def
        logger_log_def logger_error_def)
  qed
  have 11: "pending (pollQueue pair_world empty_state) = [Immediately]"
    using pp[THEN conjunct2, THEN conjunct2, THEN conjunct2, THEN conjunct1, rule_format, of "SqsOutput (Some batch_of_two)" batch_of_two]
      recv(1) two reach(3)
    by (simp add: e qu del: deletes_succeed.simps)
  show ?thesis using 1 2 3 4 5 6 7 8 9 10 11 by blast
qed


end
